theory Spec2Isabelle
  imports Complex_Main "HOL-Library.Word" "HOL-Library.Sublist"
begin

section \<open>Data model\<close>

text \<open>
  The exporter polls a MySQL server and hands typed observations to a channel.
  A \<^verbatim>\<open>float64\<close> is given by its numeric value: a finite number, one of the two
  infinities, or NaN. The two zeros are one value and so are all NaNs. The
  program does no arithmetic on the values of its observations, it only carries
  them from a database cell to the channel. \<^verbatim>\<open>sql.RawBytes\<close> and Go strings are
  byte strings.
\<close>

datatype float64 = Finite real | PosInf | NegInf | NaN

type_synonym RawBytes = string
type_synonym int64 = "64 word"
type_synonym error = string

datatype ValueType = CounterValue | GaugeValue | UntypedValue

text \<open>\<^verbatim>\<open>prometheus.Desc\<close>: fully qualified name, help text and the names of the
  variable labels (no constant labels are used anywhere in the program).\<close>

record Desc =
  fqName :: string
  helpText :: string
  variableLabels :: "string list"

text \<open>A constant metric, as built by \<^verbatim>\<open>prometheus.MustNewConstMetric\<close>.\<close>

record Metric =
  desc :: Desc
  valType :: ValueType
  metricVal :: float64
  labelValues :: "string list"

text \<open>The channel \<^verbatim>\<open>ch\<close> is write-only for the exporter: it is the list of the
  metrics sent so far, in the order they were sent.\<close>

type_synonym chan = "Metric list"

section \<open>Library functions used by the exporter\<close>

definition namespace :: string where "namespace = ''mysql''"
definition exporter :: string where "exporter = ''exporter''"
definition slaveStatus :: string where "slaveStatus = ''slave_status''"
definition globalStatus :: string where "globalStatus = ''global_status''"
definition performanceSchema :: string where "performanceSchema = ''perf_schema''"
definition informationSchema :: string where "informationSchema = ''info_schema''"

text \<open>\<^verbatim>\<open>prometheus.BuildFQName\<close>: the non-empty parts joined by an underscore; an
  empty name gives the empty string.\<close>

definition BuildFQName :: "string \<Rightarrow> string \<Rightarrow> string \<Rightarrow> string" where
  "BuildFQName ns subsystem name =
     (if name = [] then []
      else if ns \<noteq> [] \<and> subsystem \<noteq> [] then ns @ ''_'' @ subsystem @ ''_'' @ name
      else if ns \<noteq> [] then ns @ ''_'' @ name
      else if subsystem \<noteq> [] then subsystem @ ''_'' @ name
      else name)"

definition NewDesc :: "string \<Rightarrow> string \<Rightarrow> string list \<Rightarrow> Desc" where
  "NewDesc n h ls = \<lparr>fqName = n, helpText = h, variableLabels = ls\<rparr>"

text \<open>\<^verbatim>\<open>prometheus.MustNewConstMetric\<close> panics when the number of label values
  differs from the number of label names of the descriptor; \<open>None\<close> is the panic.\<close>

definition MustNewConstMetric :: "Desc \<Rightarrow> ValueType \<Rightarrow> float64 \<Rightarrow> string list \<Rightarrow> Metric option" where
  "MustNewConstMetric d t v ls =
     (if length (variableLabels d) \<noteq> length ls then None
      else Some \<lparr>desc = d, valType = t, metricVal = v, labelValues = ls\<rparr>)"

text \<open>\<^verbatim>\<open>strings.ToLower\<close> on the ASCII letters; the column and variable names of
  MySQL are ASCII.\<close>

definition toLowerChar :: "char \<Rightarrow> char" where
  "toLowerChar c =
     (case map_of (zip ''ABCDEFGHIJKLMNOPQRSTUVWXYZ'' ''abcdefghijklmnopqrstuvwxyz'') c of
        Some l \<Rightarrow> l
      | None \<Rightarrow> c)"

definition ToLower :: "string \<Rightarrow> string" where
  "ToLower s = map toLowerChar s"

definition isDigit :: "char \<Rightarrow> bool" where
  "isDigit c = (48 \<le> (of_char c :: nat) \<and> (of_char c :: nat) \<le> 57)"

definition digitVal :: "char \<Rightarrow> nat" where
  "digitVal c = of_char c - 48"

definition digitsVal :: "string \<Rightarrow> nat" where
  "digitsVal ds = foldl (\<lambda>acc c. 10 * acc + digitVal c) 0 ds"

definition isHexLetter :: "char \<Rightarrow> bool" where
  "isHexLetter c =
     ((65 \<le> (of_char c :: nat) \<and> (of_char c :: nat) \<le> 70)
      \<or> (97 \<le> (of_char c :: nat) \<and> (of_char c :: nat) \<le> 102))"

definition hexLetterVal :: "char \<Rightarrow> nat" where
  "hexLetterVal c = (if (of_char c :: nat) \<le> 70 then of_char c - 55 else of_char c - 87)"

subsection \<open>Rounding to the nearest float64\<close>

text \<open>The number of binary digits of a natural number.\<close>

fun bitLen :: "nat \<Rightarrow> nat" where
  "bitLen n = (if n = 0 then 0 else Suc (bitLen (n div 2)))"

declare bitLen.simps [simp del]

text \<open>The integer part of the binary logarithm of \<open>n / d\<close>, for positive \<open>n\<close> and
  \<open>d\<close>: the difference of the bit lengths, or one less.\<close>

definition floorLog2 :: "nat \<Rightarrow> nat \<Rightarrow> int" where
  "floorLog2 n d =
     (let k = int (bitLen n) - int (bitLen d)
      in if (if 0 \<le> k then d * 2 ^ nat k \<le> n else d \<le> n * 2 ^ nat (- k)) then k else k - 1)"

definition scale2 :: "nat \<Rightarrow> int \<Rightarrow> real" where
  "scale2 m e = (if 0 \<le> e then real m * 2 ^ nat e else real m / 2 ^ nat (- e))"

text \<open>
  The \<^verbatim>\<open>float64\<close> nearest to \<open>n / d\<close> with the given sign, ties to the even
  mantissa: a mantissa of at most 53 bits at the binary exponent \<open>e\<close>, which is
  not below that of the subnormal numbers. The second component is false when
  the rounded value is out of range, where the result is the infinity of that
  sign. A value too small for the subnormal numbers rounds to zero, in range.
\<close>

definition roundFloat64 :: "bool \<Rightarrow> nat \<Rightarrow> nat \<Rightarrow> float64 \<times> bool" where
  "roundFloat64 neg n d =
     (if n = 0 then (Finite 0, True)
      else
        let e = max (floorLog2 n d - 52) (- 1074);
            num = (if e < 0 then n * 2 ^ nat (- e) else n);
            den = (if e < 0 then d else d * 2 ^ nat e);
            q = num div den;
            r = num mod den;
            m = (if den < 2 * r \<or> (2 * r = den \<and> odd q) then q + 1 else q)
        in if 0 \<le> e \<and> 2 ^ 1024 \<le> m * 2 ^ nat e then (if neg then NegInf else PosInf, False)
           else (Finite (if neg then - scale2 m e else scale2 m e), True))"

subsection \<open>strconv.ParseFloat\<close>

text \<open>
  \<^verbatim>\<open>strconv.ParseFloat(s, 64)\<close>, by the value and whether the error is nil. The
  text is one of the special names, or a decimal or hexadecimal literal of the
  Go syntax, with nothing after it; the value is the literal's exact value
  rounded to the nearest \<^verbatim>\<open>float64\<close>. A syntax error gives the value 0, a
  range error the infinity of the sign.
\<close>

definition readSign :: "string \<Rightarrow> bool \<times> string" where
  "readSign s =
     (case s of
        [] \<Rightarrow> (False, s)
      | c # r \<Rightarrow> if c = CHR ''+'' then (False, r) else if c = CHR ''-'' then (True, r) else (False, s))"

definition commonPrefixLenIgnoreCase :: "string \<Rightarrow> string \<Rightarrow> nat" where
  "commonPrefixLenIgnoreCase s pre = length (takeWhile (\<lambda>(c, p). toLowerChar c = p) (zip s pre))"

text \<open>The infinity of \<^verbatim>\<open>special\<close>: \<^verbatim>\<open>inf\<close> or \<^verbatim>\<open>infinity\<close> in any case, after
  \<open>nsign\<close> characters of sign; the number of characters read goes with it.\<close>

definition specialInf :: "bool \<Rightarrow> nat \<Rightarrow> string \<Rightarrow> (float64 \<times> nat) option" where
  "specialInf neg nsign s =
     (let n0 = commonPrefixLenIgnoreCase s ''infinity'';
          n = (if 3 < n0 \<and> n0 < 8 then 3 else n0)
      in if n = 3 \<or> n = 8 then Some (if neg then NegInf else PosInf, nsign + n) else None)"

definition special :: "string \<Rightarrow> (float64 \<times> nat) option" where
  "special s =
     (case s of
        [] \<Rightarrow> None
      | c # r \<Rightarrow>
          if c = CHR ''+'' \<or> c = CHR ''-'' then specialInf (c = CHR ''-'') 1 r
          else if c = CHR ''i'' \<or> c = CHR ''I'' then specialInf False 0 s
          else if c = CHR ''n'' \<or> c = CHR ''N'' then
            (if commonPrefixLenIgnoreCase s ''nan'' = 3 then Some (NaN, 3) else None)
          else None)"

text \<open>
  The mantissa loop of \<^verbatim>\<open>readFloat\<close>: underscores are noted and skipped, the
  first point is taken, digits (and the letters a to f in base 16) are
  accumulated. The result is whether a digit was seen, whether an underscore
  was seen, the number the digits spell, the number of digits after the point,
  and the rest of the text.
\<close>

fun scanMantissa ::
  "nat \<Rightarrow> string \<Rightarrow> bool \<Rightarrow> bool \<Rightarrow> bool \<Rightarrow> nat \<Rightarrow> nat \<Rightarrow> (bool \<times> bool \<times> nat \<times> nat) \<times> string" where
  "scanMantissa base [] sawdot sawdigits underscores mant fd =
     ((sawdigits, underscores, mant, fd), [])"
| "scanMantissa base (c # cs) sawdot sawdigits underscores mant fd =
     (if c = CHR ''_'' then scanMantissa base cs sawdot sawdigits True mant fd
      else if c = CHR ''.'' then
        (if sawdot then ((sawdigits, underscores, mant, fd), c # cs)
         else scanMantissa base cs True sawdigits underscores mant fd)
      else if isDigit c then
        scanMantissa base cs sawdot True underscores (mant * base + digitVal c)
          (if sawdot then Suc fd else fd)
      else if base = 16 \<and> isHexLetter c then
        scanMantissa base cs sawdot True underscores (mant * 16 + hexLetterVal c)
          (if sawdot then Suc fd else fd)
      else ((sawdigits, underscores, mant, fd), c # cs))"

text \<open>The digits of the exponent; the number stops growing at 10000.\<close>

fun scanExponent :: "string \<Rightarrow> bool \<Rightarrow> nat \<Rightarrow> (bool \<times> nat) \<times> string" where
  "scanExponent [] underscores e = ((underscores, e), [])"
| "scanExponent (c # cs) underscores e =
     (if c = CHR ''_'' then scanExponent cs True e
      else if isDigit c then
        scanExponent cs underscores (if e < 10000 then e * 10 + digitVal c else e)
      else ((underscores, e), c # cs))"

text \<open>The optional exponent, \<^verbatim>\<open>e\<close> for a decimal and \<^verbatim>\<open>p\<close> for a hexadecimal
  literal, which must have one: a sign and at least one digit.\<close>

definition readExponent :: "bool \<Rightarrow> string \<Rightarrow> bool \<Rightarrow> (bool \<times> int \<times> string) option" where
  "readExponent hex s underscores =
     (case s of
        [] \<Rightarrow> if hex then None else Some (underscores, 0, s)
      | c # r \<Rightarrow>
          if (if hex then c = CHR ''p'' \<or> c = CHR ''P'' else c = CHR ''e'' \<or> c = CHR ''E'') then
            (case readSign r of (eneg, ds) \<Rightarrow>
               (case ds of
                  [] \<Rightarrow> None
                | d # _ \<Rightarrow>
                    if \<not> isDigit d then None
                    else (case scanExponent ds underscores 0 of ((us, e), rest) \<Rightarrow>
                            Some (us, if eneg then - int e else int e, rest))))
          else if hex then None
          else Some (underscores, 0, s))"

text \<open>\<^verbatim>\<open>underscoreOK\<close>: an underscore stands between two digits, or between the
  base prefix and a digit. \<open>saw\<close> is the kind of the last character.\<close>

fun underscoreScan :: "bool \<Rightarrow> string \<Rightarrow> char \<Rightarrow> bool" where
  "underscoreScan hex [] saw = (saw \<noteq> CHR ''_'')"
| "underscoreScan hex (c # cs) saw =
     (if isDigit c \<or> (hex \<and> isHexLetter c) then underscoreScan hex cs (CHR ''0'')
      else if c = CHR ''_'' then
        (if saw \<noteq> CHR ''0'' then False else underscoreScan hex cs (CHR ''_''))
      else if saw = CHR ''_'' then False
      else underscoreScan hex cs (CHR ''!''))"

definition underscoreOK :: "string \<Rightarrow> bool" where
  "underscoreOK s0 =
     (let s = snd (readSign s0)
      in case s of
           c0 # c1 # r \<Rightarrow>
             if c0 = CHR ''0'' \<and> c1 \<in> set ''bBoOxX'' then
               underscoreScan (c1 = CHR ''x'' \<or> c1 = CHR ''X'') r (CHR ''0'')
             else underscoreScan False s (CHR ''^'')
         | _ \<Rightarrow> underscoreScan False s (CHR ''^''))"

text \<open>
  \<^verbatim>\<open>readFloat\<close>: the sign, whether the literal is hexadecimal, the number its
  digits spell, the number of digits after the point, the exponent and the
  text that is left; \<open>None\<close> when the text does not start with a literal.
\<close>

definition readFloat :: "string \<Rightarrow> (bool \<times> bool \<times> nat \<times> nat \<times> int \<times> string) option" where
  "readFloat s =
     (case readSign s of (neg, s1) \<Rightarrow>
        let hex = (case s1 of
                     c0 # c1 # c2 # _ \<Rightarrow> c0 = CHR ''0'' \<and> (c1 = CHR ''x'' \<or> c1 = CHR ''X'')
                   | _ \<Rightarrow> False);
            base = (if hex then 16 else 10);
            s2 = (if hex then drop 2 s1 else s1)
        in case scanMantissa base s2 False False False 0 0 of
             ((sawdigits, us1, mant, fd), s3) \<Rightarrow>
               if \<not> sawdigits then None
               else (case readExponent hex s3 us1 of
                       None \<Rightarrow> None
                     | Some (us2, e, rest) \<Rightarrow>
                         if us2 \<and> \<not> underscoreOK (take (length s - length rest) s) then None
                         else Some (neg, hex, mant, fd, e, rest)))"

definition ParseFloat :: "string \<Rightarrow> float64 \<times> bool" where
  "ParseFloat s =
     (case special s of
        Some (v, n) \<Rightarrow> if n = length s then (v, True) else (Finite 0, False)
      | None \<Rightarrow>
          (case readFloat s of
             None \<Rightarrow> (Finite 0, False)
           | Some (neg, hex, mant, fd, e, rest) \<Rightarrow>
               if rest \<noteq> [] then (Finite 0, False)
               else
                 let x = e - (if hex then 4 * int fd else int fd);
                     b = (if hex then 2 else 10)
                 in if 0 \<le> x then roundFloat64 neg (mant * b ^ nat x) 1
                    else roundFloat64 neg mant (b ^ nat (- x))))"

section \<open>Regular expressions\<close>

text \<open>
  \<^verbatim>\<open>globalStatusRE = ^(com|connection_errors|innodb_rows|performance_schema)_(.*)$\<close>.
  \<^verbatim>\<open>FindStringSubmatch\<close> gives nil or a slice of exactly three strings, the
  whole match and the two groups: \<^verbatim>\<open>(match[0], match[1], match[2])\<close>. The
  alternatives are tried in order; the dot does not match a line feed and the
  dollar matches only at the end of the text.
\<close>

definition globalStatusRE_FindStringSubmatch :: "string \<Rightarrow> (string \<times> string \<times> string) option" where
  "globalStatusRE_FindStringSubmatch key =
     (case filter (\<lambda>f. prefix (f @ ''_'') key \<and> CHR 0x0A \<notin> set (drop (length f + 1) key))
             [''com'', ''connection_errors'', ''innodb_rows'', ''performance_schema''] of
        [] \<Rightarrow> None
      | f # _ \<Rightarrow> Some (key, f, drop (length f + 1) key))"

text \<open>
  \<^verbatim>\<open>logRE = .+\.(\d+)$\<close>. The pattern is not anchored at the start and must run
  to the end of the text, so a match is a suffix of the input: at least one
  character other than a line feed, a point, and at least one decimal digit.
  \<^verbatim>\<open>Find\<close> gives the text of the leftmost match (the whole match, not the
  group), or nil.
\<close>

definition logRE_matches :: "string \<Rightarrow> bool" where
  "logRE_matches s =
     (let r = rev s; ds = takeWhile isDigit r; rest = dropWhile isDigit r
      in ds \<noteq> [] \<and>
         (case rest of
            [] \<Rightarrow> False
          | c # a \<Rightarrow> c = CHR ''.'' \<and> a \<noteq> [] \<and> CHR 0x0A \<notin> set a))"

fun logRE_Find :: "string \<Rightarrow> string option" where
  "logRE_Find [] = None"
| "logRE_Find (c # s) = (if logRE_matches (c # s) then Some (c # s) else logRE_Find s)"

section \<open>The value parser\<close>

definition parseStatus :: "RawBytes \<Rightarrow> float64 \<times> bool" where
  "parseStatus data =
     (if data = ''Yes'' \<or> data = ''ON'' then (Finite 1, True)
      else if data = ''No'' \<or> data = ''OFF'' then (Finite 0, True)
      else (case logRE_Find data of
              Some logNum \<Rightarrow> ParseFloat logNum
            | None \<Rightarrow> ParseFloat data))"

section \<open>Metric descriptors\<close>

definition globalCommandsDesc :: Desc where
  "globalCommandsDesc =
     NewDesc (BuildFQName namespace globalStatus ''commands_total'')
       ''Total number of executed MySQL commands.'' [''command'']"

definition globalConnectionErrorsDesc :: Desc where
  "globalConnectionErrorsDesc =
     NewDesc (BuildFQName namespace globalStatus ''connection_errors_total'')
       ''Total number of MySQL connection errors.'' [''error'']"

definition globalInnoDBRowOpsDesc :: Desc where
  "globalInnoDBRowOpsDesc =
     NewDesc (BuildFQName namespace globalStatus ''innodb_row_ops_total'')
       ''Total number of MySQL InnoDB row operations.'' [''operation'']"

definition globalPerformanceSchemaLostDesc :: Desc where
  "globalPerformanceSchemaLostDesc =
     NewDesc (BuildFQName namespace globalStatus ''performance_schema_lost_total'')
       ''Total number of MySQL instrumentations that could not be loaded or created due to memory constraints.''
       [''instrumentation'']"

definition performanceSchemaTableWaitsDesc :: Desc where
  "performanceSchemaTableWaitsDesc =
     NewDesc (BuildFQName namespace performanceSchema ''table_io_waits_total'')
       ''The total number of table I/O wait events for each table and operation.''
       [''schema'', ''name'', ''operation'']"

text \<open>The UTF-8 bytes of the right single quotation mark used in some help texts.\<close>

definition rsquo :: string where
  "rsquo = [CHR 0xE2, CHR 0x80, CHR 0x99]"

definition userStatDesc :: "string \<Rightarrow> string \<Rightarrow> Desc" where
  "userStatDesc name h = NewDesc (BuildFQName namespace informationSchema name) h [''user'']"

text \<open>The table of the known user-statistics columns; a column that is not a key
  of the map is reported as untyped.\<close>

definition informationSchemaUserStatisticsTypes :: "string \<rightharpoonup> ValueType \<times> Desc" where
  "informationSchemaUserStatisticsTypes = map_of
     [(''TOTAL_CONNECTIONS'', (CounterValue, userStatDesc ''user_statistics_total_connections''
         ''The number of connections created for this user.'')),
      (''CONCURRENT_CONNECTIONS'', (GaugeValue, userStatDesc ''user_statistics_concurrent_connections''
         ''The number of concurrent connections for this user.'')),
      (''CONNECTED_TIME'', (CounterValue, userStatDesc ''user_statistics_connected_time''
         ''The cumulative number of seconds elapsed while there were connections from this user.'')),
      (''BUSY_TIME'', (CounterValue, userStatDesc ''user_statistics_busy_time''
         ''The cumulative number of seconds there was activity on connections from this user.'')),
      (''CPU_TIME'', (CounterValue, userStatDesc ''user_statistics_cpu_time''
         ''The cumulative CPU time elapsed, in seconds, while servicing this user's connections.'')),
      (''BYTES_RECEIVED'', (CounterValue, userStatDesc ''user_statistics_bytes_received''
         (''The number of bytes received from this user'' @ rsquo @ ''s connections.''))),
      (''BYTES_SENT'', (CounterValue, userStatDesc ''user_statistics_bytes_sent''
         (''The number of bytes sent to this user'' @ rsquo @ ''s connections.''))),
      (''BINLOG_BYTES_WRITTEN'', (CounterValue, userStatDesc ''user_statistics_binlog_bytes_written''
         (''The number of bytes written to the binary log from this user'' @ rsquo @ ''s connections.''))),
      (''ROWS_FETCHED'', (CounterValue, userStatDesc ''user_statistics_rows_fetched''
         (''The number of rows fetched by this user'' @ rsquo @ ''s connections.''))),
      (''ROWS_UPDATED'', (CounterValue, userStatDesc ''user_statistics_rows_updated''
         (''The number of rows updated by this user'' @ rsquo @ ''s connections.''))),
      (''TABLE_ROWS_READ'', (CounterValue, userStatDesc ''user_statistics_table_rows_read''
         (''The number of rows read from tables by this user'' @ rsquo
            @ ''s connections. (It may be different from ROWS_FETCHED.)''))),
      (''SELECT_COMMANDS'', (CounterValue, userStatDesc ''user_statistics_select_commands''
         (''The number of SELECT commands executed from this user'' @ rsquo @ ''s connections.''))),
      (''UPDATE_COMMANDS'', (CounterValue, userStatDesc ''user_statistics_update_commands''
         (''The number of UPDATE commands executed from this user'' @ rsquo @ ''s connections.''))),
      (''OTHER_COMMANDS'', (CounterValue, userStatDesc ''user_statistics_other_commands''
         (''The number of other commands executed from this user'' @ rsquo @ ''s connections.''))),
      (''COMMIT_TRANSACTIONS'', (CounterValue, userStatDesc ''user_statistics_commit_transactions''
         (''The number of COMMIT commands issued by this user'' @ rsquo @ ''s connections.''))),
      (''ROLLBACK_TRANSACTIONS'', (CounterValue, userStatDesc ''user_statistics_rollback_transactions''
         (''The number of ROLLBACK commands issued by this user'' @ rsquo @ ''s connections.''))),
      (''DENIED_CONNECTIONS'', (CounterValue, userStatDesc ''user_statistics_denied_connections''
         ''The number of connections denied to this user.'')),
      (''LOST_CONNECTIONS'', (CounterValue, userStatDesc ''user_statistics_lost_connections''
         (''The number of this user'' @ rsquo @ ''s connections that were terminated uncleanly.''))),
      (''ACCESS_DENIED'', (CounterValue, userStatDesc ''user_statistics_access_denied''
         (''The number of times this user'' @ rsquo @ ''s connections issued commands that were denied.''))),
      (''EMPTY_QUERIES'', (CounterValue, userStatDesc ''user_statistics_empty_queries''
         (''The number of times this user'' @ rsquo @ ''s connections sent empty queries to the server.''))),
      (''TOTAL_SSL_CONNECTIONS'', (CounterValue, userStatDesc ''user_statistics_total_ssl_connections''
         (''The number of times this user'' @ rsquo @ ''s connections connected using SSL to the server.'')))]"

definition newDesc :: "string \<Rightarrow> string \<Rightarrow> string \<Rightarrow> Desc" where
  "newDesc subsystem name h = NewDesc (BuildFQName namespace subsystem name) h []"

section \<open>The exporter and its environment\<close>

text \<open>The three self-observation metrics of the exporter, by their current value.
  They only ever hold finite numbers: a number of seconds, 0 or 1, and a count
  of polls.\<close>

record Exporter =
  duration :: real
  error :: real
  totalScrapes :: real

text \<open>The two command-line toggles.\<close>

record Flags =
  perfTableIOWaits :: bool
  userStat :: bool

text \<open>
  A result set (\<^verbatim>\<open>sql.Rows\<close>): what \<^verbatim>\<open>Columns()\<close> returns, and the rows in the
  order \<^verbatim>\<open>Next()\<close> delivers them, each given by what \<^verbatim>\<open>Scan\<close> into the
  destinations of that query finds: an error, or the converted values.
\<close>

record 'a Rows =
  Columns :: "error + string list"
  scans :: "(error + 'a) list"

record perfRow =
  objectSchema :: string
  objectName :: string
  countRead :: int64
  countWrite :: int64
  countFetch :: int64
  countInsert :: int64
  countUpdate :: int64
  countDelete :: int64

text \<open>
  The database as one poll sees it: the error of \<^verbatim>\<open>sql.Open\<close> (\<open>None\<close> is nil)
  and, for each of the four fixed queries, the error of \<^verbatim>\<open>db.Query\<close> or its
  result set. A user-statistics row is the user name of column 0 and the numbers
  of the remaining columns, in column order.
\<close>

record DB =
  Open :: "error option"
  showGlobalStatus :: "error + (string \<times> RawBytes) Rows"
  showSlaveStatus :: "error + (RawBytes list) Rows"
  selectTableIOWaits :: "error + perfRow Rows"
  selectUserStatistics :: "error + (string \<times> float64 list) Rows"

text \<open>The two readings of the clock, in nanoseconds: \<^verbatim>\<open>time.Now()\<close> when the
  poll starts and when the deferred function runs.\<close>

record Clock =
  begun :: int
  ended :: int

definition Seconds :: "int \<Rightarrow> real" where
  "Seconds d = real_of_int d / 1000000000"

text \<open>
  How a part of \<^verbatim>\<open>scrape\<close> ends: control goes on to the next statement, the
  function returns, or the goroutine panics.
\<close>

datatype flow = Continue | Returned | Panicked

type_synonym state = "Exporter \<times> chan"

definition andThen :: "flow \<times> state \<Rightarrow> (state \<Rightarrow> flow \<times> state) \<Rightarrow> flow \<times> state" where
  "andThen r f = (case r of (Continue, s) \<Rightarrow> f s | _ \<Rightarrow> r)"

text \<open>\<^verbatim>\<open>ch <- prometheus.MustNewConstMetric(...)\<close>\<close>

definition send :: "Metric option \<Rightarrow> state \<Rightarrow> flow \<times> state" where
  "send m s =
     (case m of
        None \<Rightarrow> (Panicked, s)
      | Some x \<Rightarrow> (Continue, (fst s, snd s @ [x])))"

text \<open>\<^verbatim>\<open>e.error.Set(1); return\<close>\<close>

definition fail :: "state \<Rightarrow> flow \<times> state" where
  "fail s = (Returned, ((fst s)\<lparr>error := 1\<rparr>, snd s))"

text \<open>Go index expressions panic out of range; \<open>None\<close> is the panic.\<close>

definition load :: "'a list \<Rightarrow> nat \<Rightarrow> 'a option" where
  "load xs i = (if i < length xs then Some (xs ! i) else None)"

definition store :: "'a list \<Rightarrow> nat \<Rightarrow> 'a \<Rightarrow> 'a list option" where
  "store xs i v = (if i < length xs then Some (xs[i := v]) else None)"

definition sliceFrom :: "'a list \<Rightarrow> nat \<Rightarrow> 'a list option" where
  "sliceFrom xs lo = (if lo \<le> length xs then Some (drop lo xs) else None)"

section \<open>The poll\<close>

subsection \<open>SHOW GLOBAL STATUS\<close>

text \<open>The body of the loop over the rows of the global status, after the scan.\<close>

definition globalStatusRow :: "string \<Rightarrow> RawBytes \<Rightarrow> state \<Rightarrow> flow \<times> state" where
  "globalStatusRow key val s =
     (case parseStatus val of (floatVal, ok) \<Rightarrow>
        if ok then
          (case globalStatusRE_FindStringSubmatch key of
             None \<Rightarrow>
               send (MustNewConstMetric
                       (newDesc globalStatus (ToLower key) ''Generic metric from SHOW GLOBAL STATUS.'')
                       UntypedValue floatVal []) s
           | Some (match0, match1, match2) \<Rightarrow>
               if match1 = ''com'' then
                 send (MustNewConstMetric globalCommandsDesc CounterValue floatVal [match2]) s
               else if match1 = ''connection_errors'' then
                 send (MustNewConstMetric globalConnectionErrorsDesc CounterValue floatVal [match2]) s
               else if match1 = ''innodb_rows'' then
                 send (MustNewConstMetric globalInnoDBRowOpsDesc CounterValue floatVal [match2]) s
               else if match1 = ''performance_schema'' then
                 send (MustNewConstMetric globalPerformanceSchemaLostDesc CounterValue floatVal [match2]) s
               else (Continue, s))
        else (Continue, s))"

fun globalStatusLoop :: "(error + string \<times> RawBytes) list \<Rightarrow> state \<Rightarrow> flow \<times> state" where
  "globalStatusLoop [] s = (Continue, s)"
| "globalStatusLoop (r # rows) s =
     (case r of
        Inl err \<Rightarrow> fail s
      | Inr (key, val) \<Rightarrow> andThen (globalStatusRow key val s) (globalStatusLoop rows))"

definition globalStatusSection :: "DB \<Rightarrow> state \<Rightarrow> flow \<times> state" where
  "globalStatusSection db s =
     (case showGlobalStatus db of
        Inl err \<Rightarrow> fail s
      | Inr globalStatusRows \<Rightarrow> globalStatusLoop (scans globalStatusRows) s)"

subsection \<open>SHOW SLAVE STATUS\<close>

text \<open>
  \<^verbatim>\<open>Scan\<close> into a slice of \<^verbatim>\<open>*sql.RawBytes\<close>: the error of the row, an error when
  the number of destinations is not the number of values, or the destinations
  filled with the values.
\<close>

definition ScanRawBytes :: "RawBytes list \<Rightarrow> error + RawBytes list \<Rightarrow> error + RawBytes list" where
  "ScanRawBytes scanArgs r =
     (case r of
        Inl err \<Rightarrow> Inl err
      | Inr vs \<Rightarrow>
          if length vs \<noteq> length scanArgs then Inl ''sql: wrong number of destination arguments in Scan''
          else Inr vs)"

definition slaveStatusCell :: "string \<Rightarrow> RawBytes \<Rightarrow> state \<Rightarrow> flow \<times> state" where
  "slaveStatusCell col data s =
     (case parseStatus data of (v, ok) \<Rightarrow>
        if ok then
          send (MustNewConstMetric
                  (newDesc slaveStatus (ToLower col) ''Generic metric from SHOW SLAVE STATUS.'')
                  UntypedValue v []) s
        else (Continue, s))"

text \<open>\<^verbatim>\<open>for i, col := range slaveCols\<close>, from index \<open>i\<close> on.\<close>

fun slaveStatusLoop :: "string list \<Rightarrow> nat \<Rightarrow> RawBytes list \<Rightarrow> state \<Rightarrow> flow \<times> state" where
  "slaveStatusLoop [] i scanArgs s = (Continue, s)"
| "slaveStatusLoop (col # cols) i scanArgs s =
     (case load scanArgs i of
        None \<Rightarrow> (Panicked, s)
      | Some data \<Rightarrow> andThen (slaveStatusCell col data s) (slaveStatusLoop cols (Suc i) scanArgs))"

definition slaveStatusSection :: "DB \<Rightarrow> state \<Rightarrow> flow \<times> state" where
  "slaveStatusSection db s =
     (case showSlaveStatus db of
        Inl err \<Rightarrow> fail s
      | Inr slaveStatusRows \<Rightarrow>
          (case scans slaveStatusRows of
             [] \<Rightarrow> (Continue, s)
           | r # _ \<Rightarrow>
               (case Columns slaveStatusRows of
                  Inl err \<Rightarrow> fail s
                | Inr slaveCols \<Rightarrow>
                    (case ScanRawBytes (replicate (length slaveCols) []) r of
                       Inl err \<Rightarrow> fail s
                     | Inr scanArgs \<Rightarrow> slaveStatusLoop slaveCols 0 scanArgs s))))"

subsection \<open>performance\_schema.table\_io\_waits\_summary\_by\_table\<close>

text \<open>\<^verbatim>\<open>float64(count)\<close> of an \<^verbatim>\<open>int64\<close>: the \<^verbatim>\<open>float64\<close> nearest to the
  integer the word denotes, ties to even. An integer of at most 53 bits is kept
  as it is.\<close>

definition float64_of_int64 :: "int64 \<Rightarrow> float64" where
  "float64_of_int64 c = fst (roundFloat64 (sint c < 0) (nat \<bar>sint c\<bar>) 1)"

definition tableWaitsMetric :: "perfRow \<Rightarrow> int64 \<Rightarrow> string \<Rightarrow> Metric option" where
  "tableWaitsMetric r c operation =
     MustNewConstMetric performanceSchemaTableWaitsDesc CounterValue (float64_of_int64 c)
       [objectSchema r, objectName r, operation]"

definition tableWaitsRow :: "perfRow \<Rightarrow> state \<Rightarrow> flow \<times> state" where
  "tableWaitsRow r s =
     andThen (send (tableWaitsMetric r (countRead r) ''read'') s) (\<lambda>s.
     andThen (send (tableWaitsMetric r (countWrite r) ''write'') s) (\<lambda>s.
     andThen (send (tableWaitsMetric r (countFetch r) ''fetch'') s) (\<lambda>s.
     andThen (send (tableWaitsMetric r (countInsert r) ''insert'') s) (\<lambda>s.
     andThen (send (tableWaitsMetric r (countUpdate r) ''update'') s) (\<lambda>s.
     send (tableWaitsMetric r (countDelete r) ''delete'') s)))))"

text \<open>A scan error in this loop returns without touching the error gauge.\<close>

fun tableWaitsLoop :: "(error + perfRow) list \<Rightarrow> state \<Rightarrow> flow \<times> state" where
  "tableWaitsLoop [] s = (Continue, s)"
| "tableWaitsLoop (r # rows) s =
     (case r of
        Inl err \<Rightarrow> (Returned, s)
      | Inr row \<Rightarrow> andThen (tableWaitsRow row s) (tableWaitsLoop rows))"

definition tableWaitsSection :: "Flags \<Rightarrow> DB \<Rightarrow> state \<Rightarrow> flow \<times> state" where
  "tableWaitsSection fl db s =
     (if perfTableIOWaits fl then
        (case selectTableIOWaits db of
           Inl err \<Rightarrow> fail s
         | Inr perfSchemaTableWaitsRows \<Rightarrow> tableWaitsLoop (scans perfSchemaTableWaitsRows) s)
      else (Continue, s))"

subsection \<open>information\_schema.USER\_STATISTICS\<close>

text \<open>
  An entry of \<^verbatim>\<open>userStatScanArgs\<close>: the nil interface, the pointer \<^verbatim>\<open>&user\<close>, or
  the pointer \<^verbatim>\<open>&userStatData[j]\<close>.
\<close>

datatype scanArg = NilArg | UserPtr | DataPtr nat

text \<open>\<^verbatim>\<open>for i := range userStatData[1:] { userStatScanArgs[i+1] = &userStatData[i+1] }\<close>,
  over the indices that are left.\<close>

fun bindScanArgs :: "nat list \<Rightarrow> float64 list \<Rightarrow> scanArg list \<Rightarrow> scanArg list option" where
  "bindScanArgs [] userStatData userStatScanArgs = Some userStatScanArgs"
| "bindScanArgs (i # is) userStatData userStatScanArgs =
     (if i + 1 < length userStatData then
        (case store userStatScanArgs (i + 1) (DataPtr (i + 1)) of
           None \<Rightarrow> None
         | Some args \<Rightarrow> bindScanArgs is userStatData args)
      else None)"

text \<open>
  \<^verbatim>\<open>Scan(userStatScanArgs...)\<close>: the string of column 0 goes to \<^verbatim>\<open>user\<close>, and the
  number of each further column goes through the pointer at the same position.
  A nil destination or a wrong number of destinations is an error.
\<close>

fun assignData :: "scanArg list \<Rightarrow> float64 list \<Rightarrow> float64 list \<Rightarrow> float64 list option" where
  "assignData [] [] userStatData = Some userStatData"
| "assignData (DataPtr j # args) (v # vs) userStatData =
     (case store userStatData j v of
        None \<Rightarrow> None
      | Some d \<Rightarrow> assignData args vs d)"
| "assignData _ _ _ = None"

definition ScanUserStat ::
  "scanArg list \<Rightarrow> error + string \<times> float64 list \<Rightarrow> string \<times> float64 list
     \<Rightarrow> error + string \<times> float64 list" where
  "ScanUserStat userStatScanArgs r vars =
     (case r of
        Inl err \<Rightarrow> Inl err
      | Inr (u, vs) \<Rightarrow>
          (case userStatScanArgs of
             UserPtr # args \<Rightarrow>
               (case assignData args vs (snd vars) of
                  None \<Rightarrow> Inl ''sql: Scan error''
                | Some d \<Rightarrow> Inr (u, d))
           | _ \<Rightarrow> Inl ''sql: Scan error''))"

definition userStatMetric :: "string \<Rightarrow> float64 \<Rightarrow> string \<Rightarrow> Metric option" where
  "userStatMetric columnName v user =
     (case informationSchemaUserStatisticsTypes columnName of
        Some (vtype, d) \<Rightarrow> MustNewConstMetric d vtype v [user]
      | None \<Rightarrow>
          MustNewConstMetric
            (NewDesc (BuildFQName namespace informationSchema
                        (''user_statistics_'' @ ToLower columnName))
               (''Unsupported metric from column '' @ columnName) [''user''])
            UntypedValue v [user])"

text \<open>\<^verbatim>\<open>for idx, columnName := range columnNames[1:]\<close>, from index \<open>idx\<close> on; the
  value sent is \<^verbatim>\<open>userStatData[idx]\<close>.\<close>

fun userStatColumns :: "string list \<Rightarrow> nat \<Rightarrow> string \<Rightarrow> float64 list \<Rightarrow> state \<Rightarrow> flow \<times> state" where
  "userStatColumns [] idx user userStatData s = (Continue, s)"
| "userStatColumns (columnName # cols) idx user userStatData s =
     (case load userStatData idx of
        None \<Rightarrow> (Panicked, s)
      | Some v \<Rightarrow>
          andThen (send (userStatMetric columnName v user) s)
            (userStatColumns cols (Suc idx) user userStatData))"

fun userStatLoop ::
  "(error + string \<times> float64 list) list \<Rightarrow> string list \<Rightarrow> scanArg list
     \<Rightarrow> string \<times> float64 list \<Rightarrow> state \<Rightarrow> flow \<times> state" where
  "userStatLoop [] columnNames userStatScanArgs vars s = (Continue, s)"
| "userStatLoop (r # rows) columnNames userStatScanArgs vars s =
     (case ScanUserStat userStatScanArgs r vars of
        Inl err \<Rightarrow> fail s
      | Inr (user, userStatData) \<Rightarrow>
          (case sliceFrom columnNames 1 of
             None \<Rightarrow> (Panicked, s)
           | Some cols \<Rightarrow>
               andThen (userStatColumns cols 0 user userStatData s)
                 (userStatLoop rows columnNames userStatScanArgs (user, userStatData))))"

definition userStatSection :: "Flags \<Rightarrow> DB \<Rightarrow> state \<Rightarrow> flow \<times> state" where
  "userStatSection fl db s =
     (if userStat fl then
        (case selectUserStatistics db of
           Inl err \<Rightarrow> fail s
         | Inr informationSchemaUserStatisticsRows \<Rightarrow>
             (case Columns informationSchemaUserStatisticsRows of
                Inl err \<Rightarrow> fail s
              | Inr columnNames \<Rightarrow>
                  (let userStatData = replicate (length columnNames) (Finite 0);
                       userStatScanArgs = replicate (length columnNames) NilArg
                   in case store userStatScanArgs 0 UserPtr of
                        None \<Rightarrow> (Panicked, s)
                      | Some args0 \<Rightarrow>
                          (case sliceFrom userStatData 1 of
                             None \<Rightarrow> (Panicked, s)
                           | Some rest \<Rightarrow>
                               (case bindScanArgs [0..<length rest] userStatData args0 of
                                  None \<Rightarrow> (Panicked, s)
                                | Some args \<Rightarrow>
                                    userStatLoop (scans informationSchemaUserStatisticsRows)
                                      columnNames args ([], userStatData) s)))))
      else (Continue, s))"

subsection \<open>scrape and Collect\<close>

text \<open>The body of \<^verbatim>\<open>scrape\<close>, without the deferred update of the duration.\<close>

definition scrapeBody :: "Flags \<Rightarrow> DB \<Rightarrow> state \<Rightarrow> flow \<times> state" where
  "scrapeBody fl db s0 =
     (let e0 = (fst s0)\<lparr>error := 0\<rparr>;
          e1 = e0\<lparr>totalScrapes := totalScrapes e0 + 1\<rparr>;
          s = (e1, snd s0)
      in case Open db of
           Some err \<Rightarrow> fail s
         | None \<Rightarrow>
             andThen (globalStatusSection db s) (\<lambda>s.
             andThen (slaveStatusSection db s) (\<lambda>s.
             andThen (tableWaitsSection fl db s) (userStatSection fl db))))"

text \<open>
  \<^verbatim>\<open>scrape\<close>: the deferred function sets the duration on every way out, a
  panic included. The result says whether the function returned or panicked.
\<close>

definition scrape :: "Flags \<Rightarrow> DB \<Rightarrow> Clock \<Rightarrow> state \<Rightarrow> flow \<times> state" where
  "scrape fl db clk s =
     (case scrapeBody fl db s of (f, (e, ch)) \<Rightarrow>
        (if f = Panicked then Panicked else Returned,
         (e\<lparr>duration := Seconds (ended clk - begun clk)\<rparr>, ch)))"

definition durationMetric :: "Exporter \<Rightarrow> Metric" where
  "durationMetric e =
     \<lparr>desc = newDesc exporter ''last_scrape_duration_seconds''
               ''Duration of the last scrape of metrics from MySQL.'',
      valType = GaugeValue, metricVal = Finite (duration e), labelValues = []\<rparr>"

definition totalScrapesMetric :: "Exporter \<Rightarrow> Metric" where
  "totalScrapesMetric e =
     \<lparr>desc = newDesc exporter ''scrapes_total''
               ''Total number of times MySQL was scraped for metrics.'',
      valType = CounterValue, metricVal = Finite (totalScrapes e), labelValues = []\<rparr>"

definition errorMetric :: "Exporter \<Rightarrow> Metric" where
  "errorMetric e =
     \<lparr>desc = newDesc exporter ''last_scrape_error''
               ''Whether the last scrape of metrics from MySQL resulted in an error (1 for error, 0 for success).'',
      valType = GaugeValue, metricVal = Finite (error e), labelValues = []\<rparr>"

text \<open>\<^verbatim>\<open>Collect\<close>: after \<^verbatim>\<open>scrape\<close> has returned, the three metrics of the
  exporter itself are sent; a panic in \<^verbatim>\<open>scrape\<close> goes through \<^verbatim>\<open>Collect\<close>.\<close>

definition Collect :: "Flags \<Rightarrow> DB \<Rightarrow> Clock \<Rightarrow> state \<Rightarrow> flow \<times> state" where
  "Collect fl db clk s =
     (case scrape fl db clk s of (f, (e, ch)) \<Rightarrow>
        if f = Panicked then (Panicked, (e, ch))
        else (Returned, (e, ch @ [durationMetric e, totalScrapesMetric e, errorMetric e])))"

section \<open>Evaluation and control-flow lemmas\<close>

lemmas num_defs = isDigit_def digitVal_def digitsVal_def isHexLetter_def hexLetterVal_def

lemmas round_defs = roundFloat64_def floorLog2_def scale2_def bitLen.simps Let_def

lemmas pf_defs = ParseFloat_def special_def specialInf_def commonPrefixLenIgnoreCase_def
  toLowerChar_def readFloat_def readSign_def readExponent_def underscoreOK_def

lemmas parse_defs = parseStatus_def logRE_matches_def pf_defs num_defs round_defs

lemmas desc_defs = NewDesc_def newDesc_def BuildFQName_def namespace_def globalStatus_def
  slaveStatus_def performanceSchema_def informationSchema_def exporter_def
  globalCommandsDesc_def globalConnectionErrorsDesc_def globalInnoDBRowOpsDesc_def
  globalPerformanceSchemaLostDesc_def performanceSchemaTableWaitsDesc_def userStatDesc_def

lemmas flow_defs = andThen_def send_def fail_def MustNewConstMetric_def load_def store_def
  sliceFrom_def

lemmas lower_defs = ToLower_def toLowerChar_def

lemma andThen_Continue: "andThen (Continue, s) f = f s"
  by (simp add: andThen_def)

lemma andThen_Returned: "andThen (Returned, s) f = (Returned, s)"
  by (simp add: andThen_def)

lemma andThen_Panicked: "andThen (Panicked, s) f = (Panicked, s)"
  by (simp add: andThen_def)

lemma send_Some: "send (Some m) (e, ch) = (Continue, (e, ch @ [m]))"
  by (simp add: send_def)

section \<open>Rounding and the numeric parse\<close>

lemma bitLen_le: "n < 2 ^ k \<Longrightarrow> bitLen n \<le> k"
proof (induction n arbitrary: k rule: bitLen.induct)
  case (1 n)
  show ?case
  proof (cases "n = 0")
    case True
    then show ?thesis by (simp add: bitLen.simps)
  next
    case False
    with "1.prems" obtain j where k: "k = Suc j"
      by (cases k) auto
    with "1.prems" have "n div 2 < 2 ^ j"
      by auto
    from "1.IH" [OF False this] False k show ?thesis
      by (simp add: bitLen.simps [of n])
  qed
qed

lemma bitLen_gt: "2 ^ k \<le> n \<Longrightarrow> k < bitLen n"
proof (induction n arbitrary: k rule: bitLen.induct)
  case (1 n)
  have "0 < (2::nat) ^ k"
    by simp
  with "1.prems" have ne: "n \<noteq> 0"
    by linarith
  show ?case
  proof (cases k)
    case 0
    with ne show ?thesis by (simp add: bitLen.simps [of n])
  next
    case (Suc j)
    with "1.prems" have "2 ^ j \<le> n div 2"
      by auto
    from "1.IH" [OF ne this] ne Suc show ?thesis
      by (simp add: bitLen.simps [of n])
  qed
qed

lemma roundFloat64_small:
  assumes "n < 2 ^ 53"
  shows "roundFloat64 neg n 1 = (Finite (if neg then - real n else real n), True)"
proof (cases "n = 0")
  case True
  then show ?thesis by (simp add: roundFloat64_def)
next
  case False
  define e where "e = max (floorLog2 n 1 - 52) (- 1074)"
  have "bitLen n \<le> 53"
    using assms by (rule bitLen_le)
  moreover have "bitLen 1 = 1"
    by (simp add: bitLen.simps)
  ultimately have "floorLog2 n 1 \<le> 52"
    by (simp add: floorLog2_def Let_def)
  then have e: "e \<le> 0"
    by (simp add: e_def)
  have big: "\<not> (2::nat) ^ 1024 \<le> n"
  proof -
    have "(2::nat) ^ 53 \<le> 2 ^ 1024"
      by (rule power_increasing) simp_all
    with assms show ?thesis by linarith
  qed
  show ?thesis
  proof (cases "e < 0")
    case True
    have "real (n * 2 ^ nat (- e)) / 2 ^ nat (- e) = real n"
      by simp
    with True False show ?thesis
      unfolding roundFloat64_def e_def [symmetric] Let_def scale2_def
      by simp
  next
    case False
    with e have "e = 0" by simp
    with \<open>n \<noteq> 0\<close> big show ?thesis
      unfolding roundFloat64_def e_def [symmetric] Let_def scale2_def
      by simp
  qed
qed

lemma bitLen_lower: "n \<noteq> 0 \<Longrightarrow> 2 ^ (bitLen n - 1) \<le> n"
proof -
  assume n: "n \<noteq> 0"
  have "\<not> n < 2 ^ (bitLen n - 1)"
  proof
    assume "n < 2 ^ (bitLen n - 1)"
    then have "bitLen n \<le> bitLen n - 1"
      by (rule bitLen_le)
    moreover from n have "0 < bitLen n"
      by (simp add: bitLen.simps [of n])
    ultimately show False by simp
  qed
  then show ?thesis by simp
qed

lemma roundFloat64_overflow:
  assumes "2 ^ 1024 \<le> n"
  shows "roundFloat64 neg n 1 = (if neg then NegInf else PosInf, False)"
proof -
  define b where "b = bitLen n"
  have "0 < (2::nat) ^ 1024"
    by simp
  with assms have n: "n \<noteq> 0"
    by linarith
  from assms have b: "1024 < b"
    unfolding b_def by (rule bitLen_gt)
  from n have low: "2 ^ (b - 1) \<le> n"
    unfolding b_def by (rule bitLen_lower)
  have b1: "bitLen (Suc 0) = Suc 0"
    by (simp add: bitLen.simps)
  have k: "nat (int b - 1) = b - Suc 0"
    by simp
  have fl: "floorLog2 n 1 = int b - 1"
    using b low by (simp add: floorLog2_def b_def [symmetric] b1 Let_def k)
  define e where "e = max (floorLog2 n 1 - 52) (- 1074)"
  have e: "e = int b - 53"
    using b fl by (simp add: e_def)
  have ne: "nat e = b - 53" and e0: "0 \<le> e" "\<not> e < 0"
    using b by (simp_all add: e)
  define q where "q = n div 2 ^ (b - 53)"
  have eq: "b - 1 = 52 + (b - 53)"
    using b by simp
  have split: "(2::nat) ^ (b - 1) = 2 ^ 52 * 2 ^ (b - 53)"
    unfolding eq by (rule power_add)
  from low have "2 ^ 52 * 2 ^ (b - 53) \<le> n"
    unfolding split .
  then have "2 ^ 52 \<le> q"
    unfolding q_def by (simp add: less_eq_div_iff_mult_less_eq)
  then have "2 ^ 52 * 2 ^ (b - 53) \<le> q * 2 ^ (b - 53)"
    by (rule mult_le_mono1)
  then have "2 ^ (b - 1) \<le> q * 2 ^ (b - 53)"
    unfolding split .
  moreover from b have "(2::nat) ^ 1024 \<le> 2 ^ (b - 1)"
    by (intro power_increasing) simp_all
  ultimately have over: "2 ^ 1024 \<le> q * 2 ^ (b - 53)"
    by (rule order_trans [rotated])
  then have over': "2 ^ 1024 \<le> 2 ^ (b - 53) + q * 2 ^ (b - 53)"
    by (rule trans_le_add2)
  show ?thesis
    unfolding roundFloat64_def e_def [symmetric] Let_def
    using n over over' by (simp add: ne e0 q_def [symmetric])
qed

lemma scanMantissa_digits:
  "list_all isDigit ds \<Longrightarrow>
   scanMantissa 10 ds False sawdigits underscores mant 0 =
     ((sawdigits \<or> ds \<noteq> [], underscores, foldl (\<lambda>acc c. 10 * acc + digitVal c) mant ds, 0), [])"
proof (induction ds arbitrary: sawdigits mant)
  case Nil
  show ?case by simp
next
  case (Cons c ds)
  from Cons.prems have c: "isDigit c" and ds: "list_all isDigit ds"
    by simp_all
  from c have nc: "c \<noteq> CHR ''_''" "c \<noteq> CHR ''.''"
    by (auto simp: isDigit_def)
  show ?case
    by (simp add: c nc Cons.IH [OF ds] mult.commute)
qed

lemma logRE_Find_digits: "list_all isDigit s \<Longrightarrow> logRE_Find s = None"
proof (induction s)
  case Nil
  show ?case by simp
next
  case (Cons c s)
  from Cons.prems have "\<forall>x \<in> set (rev s @ [c]). isDigit x"
    by (auto simp: list_all_iff)
  then have d: "dropWhile isDigit (rev s @ [c]) = []"
    by (simp only: dropWhile_eq_Nil_conv)
  have "\<not> logRE_matches (c # s)"
    by (simp add: logRE_matches_def Let_def d)
  with Cons show ?case by simp
qed

lemma ParseFloat_digits:
  assumes "ds \<noteq> []" and "list_all isDigit ds" and "digitsVal ds < 2 ^ 53"
  shows "ParseFloat ds = (Finite (real (digitsVal ds)), True)"
proof -
  from assms(1) obtain c cs where ds: "ds = c # cs"
    by (cases ds) auto
  with assms(2) have c: "isDigit c"
    by simp
  then have notsign: "c \<noteq> CHR ''+''" "c \<noteq> CHR ''-''" "c \<noteq> CHR ''i''" "c \<noteq> CHR ''I''"
      "c \<noteq> CHR ''n''" "c \<noteq> CHR ''N''"
    by (auto simp: isDigit_def)
  have sp: "special ds = None"
    by (simp add: special_def ds notsign)
  have sg: "readSign ds = (False, ds)"
    by (simp add: readSign_def ds notsign)
  have hex: "(case ds of c0 # c1 # c2 # _ \<Rightarrow> c0 = CHR ''0'' \<and> (c1 = CHR ''x'' \<or> c1 = CHR ''X'') | _ \<Rightarrow> False) = False"
    using assms(2) by (auto simp: isDigit_def split: list.splits)
  have rf: "readFloat ds = Some (False, False, digitsVal ds, 0, 0, [])"
    unfolding readFloat_def sg
    by (simp add: hex Let_def scanMantissa_digits [OF assms(2)] assms(1) readExponent_def
        digitsVal_def)
  show ?thesis
    using roundFloat64_small [OF assms(3), of False]
    by (simp add: ParseFloat_def sp rf)
qed

lemma parseStatus_digits:
  assumes "ds \<noteq> []" and "list_all isDigit ds" and "digitsVal ds < 2 ^ 53"
  shows "parseStatus ds = (Finite (real (digitsVal ds)), True)"
proof -
  from assms(1,2) have "ds \<noteq> ''Yes''" "ds \<noteq> ''ON''" "ds \<noteq> ''No''" "ds \<noteq> ''OFF''"
    by (auto simp: isDigit_def)
  then show ?thesis
    by (simp add: parseStatus_def logRE_Find_digits [OF assms(2)] ParseFloat_digits [OF assms])
qed

lemma ParseFloat_1e400: "ParseFloat ''1e400'' = (PosInf, False)"
proof -
  have "ParseFloat ''1e400'' = roundFloat64 False (10 ^ 400) 1"
    by (simp add: pf_defs num_defs)
  moreover have "(2::nat) ^ 1024 \<le> 10 ^ 400"
    by simp
  ultimately show ?thesis
    by (simp only: roundFloat64_overflow if_False)
qed

section \<open>The value parser on a log file name\<close>

text \<open>
  C3. The claim: an input that ends in a point and a run of digits is parsed by
  its digit run, so that \<^verbatim>\<open>mysql-bin.000123\<close> gives \<open>(123, true)\<close>. The code
  hands the whole text of the match to \<^verbatim>\<open>ParseFloat\<close>, not the captured group:
  on \<^verbatim>\<open>mysql-bin.000123\<close> the parser returns \<open>(0, false)\<close>.
\<close>

theorem parseStatus_log_file_name: "parseStatus ''mysql-bin.000123'' = (Finite 0, False)"
  by (simp add: parse_defs)

section \<open>Global status keys\<close>

text \<open>
  C2. The claim: the key is compared in lower-cased form with the families, so a
  key such as \<^verbatim>\<open>Com_select\<close> gives a counter \<^verbatim>\<open>commands_total\<close> with the label
  \<^verbatim>\<open>select\<close>. The code matches the key as the server sent it: the row
  \<^verbatim>\<open>("Com_select", "42")\<close> gives the untyped metric
  \<^verbatim>\<open>mysql_global_status_com_select\<close> without labels.
\<close>

theorem globalStatusRow_capitalised_key:
  "globalStatusRow ''Com_select'' ''42'' (\<lparr>duration = 0, error = 0, totalScrapes = 1\<rparr>, []) =
     (Continue, (\<lparr>duration = 0, error = 0, totalScrapes = 1\<rparr>,
        [\<lparr>desc = \<lparr>fqName = ''mysql_global_status_com_select'',
                    helpText = ''Generic metric from SHOW GLOBAL STATUS.'',
                    variableLabels = []\<rparr>,
           valType = UntypedValue, metricVal = Finite 42, labelValues = []\<rparr>]))"
  by (simp add: globalStatusRow_def parse_defs desc_defs flow_defs lower_defs
      globalStatusRE_FindStringSubmatch_def)

section \<open>User statistics\<close>

text \<open>
  C1. The claim: the column at position k is sent with the value scanned for
  column k, so the row (alice, TOTAL\_CONNECTIONS = 5, UNKNOWN\_COL = 9) gives
  the values 5 and 9. The code scans column k into \<^verbatim>\<open>userStatData[k]\<close> and
  sends \<^verbatim>\<open>userStatData[k - 1]\<close>: on that row the values sent are 0 and 5.
\<close>

theorem userStatSection_alice_row:
  "userStatSection \<lparr>perfTableIOWaits = False, userStat = True\<rparr>
     \<lparr>Open = None,
      showGlobalStatus = Inr \<lparr>Columns = Inr [''Variable_name'', ''Value''], scans = []\<rparr>,
      showSlaveStatus = Inr \<lparr>Columns = Inr [], scans = []\<rparr>,
      selectTableIOWaits = Inr \<lparr>Columns = Inr [], scans = []\<rparr>,
      selectUserStatistics =
        Inr \<lparr>Columns = Inr [''USER'', ''TOTAL_CONNECTIONS'', ''UNKNOWN_COL''],
             scans = [Inr (''alice'', [Finite 5, Finite 9])]\<rparr>\<rparr>
     (\<lparr>duration = 0, error = 0, totalScrapes = 1\<rparr>, []) =
   (Continue, (\<lparr>duration = 0, error = 0, totalScrapes = 1\<rparr>,
     [\<lparr>desc = \<lparr>fqName = ''mysql_info_schema_user_statistics_total_connections'',
                 helpText = ''The number of connections created for this user.'',
                 variableLabels = [''user'']\<rparr>,
        valType = CounterValue, metricVal = Finite 0, labelValues = [''alice'']\<rparr>,
      \<lparr>desc = \<lparr>fqName = ''mysql_info_schema_user_statistics_unknown_col'',
                 helpText = ''Unsupported metric from column UNKNOWN_COL'',
                 variableLabels = [''user'']\<rparr>,
        valType = UntypedValue, metricVal = Finite 5, labelValues = [''alice'']\<rparr>]))"
  by (simp add: userStatSection_def ScanUserStat_def userStatMetric_def
      informationSchemaUserStatisticsTypes_def desc_defs flow_defs lower_defs upt_rec)

section \<open>Scan errors and the error gauge\<close>

text \<open>
  C4. The claim: a scan error in any of the four states sets the error gauge to
  1. The loop over the table-waits rows returns on a scan error without setting
  it: a poll whose only table-waits row cannot be scanned ends with the gauge
  at 0.
\<close>

theorem scrape_tableWaits_scan_error:
  "scrape \<lparr>perfTableIOWaits = True, userStat = False\<rparr>
     \<lparr>Open = None,
      showGlobalStatus = Inr \<lparr>Columns = Inr [''Variable_name'', ''Value''], scans = []\<rparr>,
      showSlaveStatus = Inr \<lparr>Columns = Inr [], scans = []\<rparr>,
      selectTableIOWaits =
        Inr \<lparr>Columns = Inr [''OBJECT_SCHEMA'', ''OBJECT_NAME'', ''COUNT_READ'', ''COUNT_WRITE'',
                            ''COUNT_FETCH'', ''COUNT_INSERT'', ''COUNT_UPDATE'', ''COUNT_DELETE''],
             scans = [Inl ''sql: Scan error on column index 0: converting NULL to string is unsupported'']\<rparr>,
      selectUserStatistics = Inr \<lparr>Columns = Inr [], scans = []\<rparr>\<rparr>
     \<lparr>begun = 0, ended = 1000000000\<rparr>
     (\<lparr>duration = 0, error = 0, totalScrapes = 0\<rparr>, []) =
   (Returned, (\<lparr>duration = 1, error = 0, totalScrapes = 1\<rparr>, []))"
  by (simp add: scrape_def scrapeBody_def globalStatusSection_def slaveStatusSection_def
      tableWaitsSection_def Seconds_def andThen_def)

section \<open>The metrics of the exporter itself\<close>

text \<open>
  C6. The claim: after every poll the three metrics of the exporter are sent,
  \<^verbatim>\<open>scrapes_total\<close> has gone up by one, and \<^verbatim>\<open>last_scrape_error\<close> is 1 when
  the poll failed. A poll that stops at a scan error of a table-waits row, after
  an earlier poll had failed, sends the three metrics with \<^verbatim>\<open>scrapes_total\<close>
  one higher, but \<^verbatim>\<open>last_scrape_error\<close> with the value 0.
\<close>

theorem Collect_tableWaits_scan_error:
  "map (\<lambda>m. (fqName (desc m), valType m, metricVal m, labelValues m))
     (snd (snd (Collect \<lparr>perfTableIOWaits = True, userStat = True\<rparr>
       \<lparr>Open = None,
        showGlobalStatus = Inr \<lparr>Columns = Inr [''Variable_name'', ''Value''], scans = []\<rparr>,
        showSlaveStatus = Inr \<lparr>Columns = Inr [], scans = []\<rparr>,
        selectTableIOWaits =
          Inr \<lparr>Columns = Inr [''OBJECT_SCHEMA'', ''OBJECT_NAME'', ''COUNT_READ'', ''COUNT_WRITE'',
                              ''COUNT_FETCH'', ''COUNT_INSERT'', ''COUNT_UPDATE'', ''COUNT_DELETE''],
               scans = [Inl ''sql: Scan error on column index 2: value out of range'']\<rparr>,
        selectUserStatistics = Inr \<lparr>Columns = Inr [''USER''], scans = []\<rparr>\<rparr>
       \<lparr>begun = 5000000000, ended = 7000000000\<rparr>
       (\<lparr>duration = 3, error = 1, totalScrapes = 7\<rparr>, [])))) =
   [(''mysql_exporter_last_scrape_duration_seconds'', GaugeValue, Finite 2, []),
    (''mysql_exporter_scrapes_total'', CounterValue, Finite 8, []),
    (''mysql_exporter_last_scrape_error'', GaugeValue, Finite 0, [])]"
  by (simp add: Collect_def scrape_def scrapeBody_def globalStatusSection_def
      slaveStatusSection_def tableWaitsSection_def Seconds_def andThen_def
      durationMetric_def totalScrapesMetric_def errorMetric_def desc_defs)

section \<open>Failure of the second query\<close>

lemma globalStatusRow_extends:
  "\<exists>obs. globalStatusRow key val (e, ch) = (Continue, (e, ch @ obs))"
  by (cases "globalStatusRE_FindStringSubmatch key")
     (auto simp: globalStatusRow_def desc_defs MustNewConstMetric_def send_Some
           split: prod.splits)

lemma globalStatusLoop_extends:
  "globalStatusLoop rows (e, ch) = (f, (e', ch')) \<Longrightarrow> \<exists>obs. ch' = ch @ obs"
proof (induction rows arbitrary: ch)
  case Nil
  then show ?case by simp
next
  case (Cons r rows)
  show ?case
  proof (cases r)
    case (Inl err)
    with Cons.prems show ?thesis by (simp add: fail_def)
  next
    case (Inr kv)
    obtain key val where kv: "kv = (key, val)" by (cases kv)
    obtain obs where row: "globalStatusRow key val (e, ch) = (Continue, (e, ch @ obs))"
      using globalStatusRow_extends by blast
    from Cons.prems Inr kv row have "globalStatusLoop rows (e, ch @ obs) = (f, (e', ch'))"
      by (simp add: andThen_Continue)
    from Cons.IH [OF this] show ?thesis by auto
  qed
qed

text \<open>
  C5. When \<^verbatim>\<open>SHOW SLAVE STATUS\<close> fails to execute after the global status has been
  read to its end, the poll returns with the error gauge at 1, and the channel
  holds exactly what it held when the first query was done: nothing of the
  failed or of a later query is sent, and what the first query sent stays (the
  channel is only ever extended).
\<close>

theorem slave_query_failure_contained:
  assumes "Open db = None"
    and "globalStatusSection db (e\<lparr>error := 0, totalScrapes := totalScrapes e + 1\<rparr>, ch) = (Continue, (e', ch'))"
    and "showSlaveStatus db = Inl err"
  shows "scrape fl db clk (e, ch) =
           (Returned, (e'\<lparr>error := 1, duration := Seconds (ended clk - begun clk)\<rparr>, ch'))
         \<and> (\<exists>obs. ch' = ch @ obs)"
proof -
  have "slaveStatusSection db (e', ch') = (Returned, (e'\<lparr>error := 1\<rparr>, ch'))"
    using assms(3) by (simp add: slaveStatusSection_def fail_def)
  then have "scrapeBody fl db (e, ch) = (Returned, (e'\<lparr>error := 1\<rparr>, ch'))"
    using assms(1,2) by (simp add: scrapeBody_def andThen_Continue andThen_Returned)
  then have "scrape fl db clk (e, ch) =
           (Returned, (e'\<lparr>error := 1, duration := Seconds (ended clk - begun clk)\<rparr>, ch'))"
    by (simp add: scrape_def)
  moreover have "\<exists>obs. ch' = ch @ obs"
  proof (cases "showGlobalStatus db")
    case (Inl a)
    with assms(2) show ?thesis by (simp add: globalStatusSection_def fail_def)
  next
    case (Inr rs)
    with assms(2) show ?thesis
      by (auto simp: globalStatusSection_def dest: globalStatusLoop_extends)
  qed
  ultimately show ?thesis by simp
qed

theorem slave_query_failure_contained_witness:
  "(let db = \<lparr>Open = None,
              showGlobalStatus = Inr \<lparr>Columns = Inr [''Variable_name'', ''Value''],
                                      scans = [Inr (''com_insert'', ''42'')]\<rparr>,
              showSlaveStatus = Inl ''Error 1227: Access denied'',
              selectTableIOWaits = Inr \<lparr>Columns = Inr [], scans = []\<rparr>,
              selectUserStatistics = Inr \<lparr>Columns = Inr [''USER''], scans = []\<rparr>\<rparr>;
        obs = [\<lparr>desc = globalCommandsDesc, valType = CounterValue, metricVal = Finite 42,
                 labelValues = [''insert'']\<rparr>]
    in Open db = None
       \<and> globalStatusSection db (\<lparr>duration = 0, error = 0, totalScrapes = 1\<rparr>, []) =
            (Continue, (\<lparr>duration = 0, error = 0, totalScrapes = 1\<rparr>, obs))
       \<and> showSlaveStatus db = Inl ''Error 1227: Access denied''
       \<and> scrape \<lparr>perfTableIOWaits = True, userStat = True\<rparr> db \<lparr>begun = 0, ended = 2000000000\<rparr>
            (\<lparr>duration = 0, error = 0, totalScrapes = 0\<rparr>, []) =
            (Returned, (\<lparr>duration = 2, error = 1, totalScrapes = 1\<rparr>, obs)))"
proof -
  define db where "db = \<lparr>Open = None,
              showGlobalStatus = Inr \<lparr>Columns = Inr [''Variable_name'', ''Value''],
                                      scans = [Inr (''com_insert'', ''42'')]\<rparr>,
              showSlaveStatus = Inl ''Error 1227: Access denied'',
              selectTableIOWaits = Inr \<lparr>Columns = Inr [], scans = []\<rparr>,
              selectUserStatistics = Inr \<lparr>Columns = Inr [''USER''], scans = []\<rparr>\<rparr>"
  define obs where "obs = [\<lparr>desc = globalCommandsDesc, valType = CounterValue, metricVal = Finite 42,
                 labelValues = [''insert'']\<rparr>]"
  have h1: "Open db = None"
    by (simp add: db_def)
  have h2: "globalStatusSection db
              (\<lparr>duration = 0, error = 0, totalScrapes = 0\<rparr>\<lparr>error := 0, totalScrapes := totalScrapes \<lparr>duration = 0, error = 0, totalScrapes = 0\<rparr> + 1\<rparr>, []) =
            (Continue, (\<lparr>duration = 0, error = 0, totalScrapes = 1\<rparr>, obs))"
    by (simp add: db_def obs_def globalStatusSection_def globalStatusRow_def parse_defs
        flow_defs globalStatusRE_FindStringSubmatch_def globalCommandsDesc_def NewDesc_def)
  have h3: "showSlaveStatus db = Inl ''Error 1227: Access denied''"
    by (simp add: db_def)
  from slave_query_failure_contained [OF h1 h2 h3,
      of "\<lparr>perfTableIOWaits = True, userStat = True\<rparr>" "\<lparr>begun = 0, ended = 2000000000\<rparr>"]
  have "scrape \<lparr>perfTableIOWaits = True, userStat = True\<rparr> db \<lparr>begun = 0, ended = 2000000000\<rparr>
            (\<lparr>duration = 0, error = 0, totalScrapes = 0\<rparr>, []) =
            (Returned, (\<lparr>duration = 2, error = 1, totalScrapes = 1\<rparr>, obs))"
    by (simp add: Seconds_def)
  with h1 h2 h3 show ?thesis
    unfolding Let_def db_def obs_def by simp
qed

section \<open>The rules of the value parser and the cells that do not parse\<close>

lemma FindStringSubmatch_family:
  assumes "globalStatusRE_FindStringSubmatch key = Some (match0, match1, match2)"
  shows "match1 \<in> {''com'', ''connection_errors'', ''innodb_rows'', ''performance_schema''}"
proof -
  define P where "P = (\<lambda>f. prefix (f @ ''_'') key \<and> CHR 0x0A \<notin> set (drop (length f + 1) key))"
  define fams where "fams = [''com'', ''connection_errors'', ''innodb_rows'', ''performance_schema'']"
  from assms obtain fs where "filter P fams = match1 # fs"
    unfolding globalStatusRE_FindStringSubmatch_def P_def [symmetric] fams_def [symmetric]
    by (auto split: list.splits)
  then have "match1 \<in> set (filter P fams)"
    by simp
  then have "match1 \<in> set fams"
    by simp
  then show ?thesis
    by (simp add: fams_def)
qed

lemma globalStatusRow_ok:
  assumes "snd (parseStatus data)"
  shows "\<exists>m. globalStatusRow key data (e, ch) = (Continue, (e, ch @ [m]))
             \<and> metricVal m = fst (parseStatus data)"
proof -
  from assms obtain v where p: "parseStatus data = (v, True)"
    by (cases "parseStatus data") auto
  show ?thesis
  proof (cases "globalStatusRE_FindStringSubmatch key")
    case None
    then show ?thesis
      by (simp add: globalStatusRow_def p MustNewConstMetric_def newDesc_def NewDesc_def send_Some)
  next
    case (Some match)
    obtain match0 match1 match2 where m: "match = (match0, match1, match2)"
      by (cases match)
    from Some m have "match1 \<in> {''com'', ''connection_errors'', ''innodb_rows'', ''performance_schema''}"
      by (auto dest: FindStringSubmatch_family)
    with Some m show ?thesis
      by (auto simp: globalStatusRow_def p MustNewConstMetric_def desc_defs send_Some)
  qed
qed

lemma slaveStatusCell_ok:
  assumes "snd (parseStatus data)"
  shows "\<exists>m. slaveStatusCell col data (e, ch) = (Continue, (e, ch @ [m]))
             \<and> metricVal m = fst (parseStatus data)"
proof -
  from assms obtain v where p: "parseStatus data = (v, True)"
    by (cases "parseStatus data") auto
  show ?thesis
    by (simp add: slaveStatusCell_def p MustNewConstMetric_def newDesc_def NewDesc_def send_Some)
qed

lemma parseStatus_examples:
  "parseStatus ''3.14'' = (Finite (7070651414971679 / 2251799813685248), True)"
  "parseStatus ''-1.5e2'' = (Finite (- 150), True)"
  "parseStatus ''NaN'' = (NaN, True)"
  "parseStatus ''yes'' = (Finite 0, False)"
  "parseStatus ''garbage'' = (Finite 0, False)"
  by (simp_all add: parse_defs)

lemma parseStatus_1e400: "parseStatus ''1e400'' = (PosInf, False)"
proof -
  have "logRE_Find ''1e400'' = None"
    by (simp add: logRE_matches_def isDigit_def)
  then show ?thesis
    by (simp add: parseStatus_def ParseFloat_1e400)
qed

text \<open>
  C7. \<^verbatim>\<open>Yes\<close> and \<^verbatim>\<open>ON\<close> give \<open>(1, true)\<close>, \<^verbatim>\<open>No\<close> and \<^verbatim>\<open>OFF\<close> give
  \<open>(0, true)\<close>, compared byte by byte; every other input is handed to the
  numeric parse (of the log-name match when there is one, of the whole input
  otherwise) and the result is the value with the success of that parse: a
  string of digits below \<open>2\<^sup>5\<^sup>3\<close> gives its number, \<^verbatim>\<open>3.14\<close> the nearest
  \<^verbatim>\<open>float64\<close>, while \<^verbatim>\<open>yes\<close>, \<^verbatim>\<open>garbage\<close> and the out-of-range \<^verbatim>\<open>1e400\<close> are
  not ok. The parser is total. When the result is not ok the callers, in the
  global status and in the slave status, send nothing for the cell and go on;
  when it is ok they send one metric with the parsed value.
\<close>

theorem parseStatus_rules_and_skip:
  "parseStatus ''Yes'' = (Finite 1, True) \<and> parseStatus ''ON'' = (Finite 1, True)
   \<and> parseStatus ''No'' = (Finite 0, True) \<and> parseStatus ''OFF'' = (Finite 0, True)
   \<and> (data \<notin> {''Yes'', ''ON'', ''No'', ''OFF''} \<longrightarrow>
        parseStatus data =
          ParseFloat (case logRE_Find data of Some logNum \<Rightarrow> logNum | None \<Rightarrow> data))
   \<and> (ds \<noteq> [] \<and> list_all isDigit ds \<and> digitsVal ds < 2 ^ 53 \<longrightarrow>
        parseStatus ds = (Finite (real (digitsVal ds)), True))
   \<and> parseStatus ''3.14'' = (Finite (7070651414971679 / 2251799813685248), True)
   \<and> parseStatus ''-1.5e2'' = (Finite (- 150), True)
   \<and> parseStatus ''NaN'' = (NaN, True)
   \<and> parseStatus ''yes'' = (Finite 0, False)
   \<and> parseStatus ''garbage'' = (Finite 0, False)
   \<and> parseStatus ''1e400'' = (PosInf, False)
   \<and> (\<not> snd (parseStatus data) \<longrightarrow>
        globalStatusRow key data s = (Continue, s) \<and> slaveStatusCell col data s = (Continue, s))
   \<and> (snd (parseStatus data) \<longrightarrow>
        (\<exists>m. globalStatusRow key data (e, ch) = (Continue, (e, ch @ [m]))
             \<and> metricVal m = fst (parseStatus data))
        \<and> (\<exists>m. slaveStatusCell col data (e, ch) = (Continue, (e, ch @ [m]))
             \<and> metricVal m = fst (parseStatus data)))"
proof -
  have lit: "parseStatus ''Yes'' = (Finite 1, True)" "parseStatus ''ON'' = (Finite 1, True)"
    "parseStatus ''No'' = (Finite 0, True)" "parseStatus ''OFF'' = (Finite 0, True)"
    by (simp_all add: parseStatus_def)
  have other: "data \<notin> {''Yes'', ''ON'', ''No'', ''OFF''} \<longrightarrow>
        parseStatus data =
          ParseFloat (case logRE_Find data of Some logNum \<Rightarrow> logNum | None \<Rightarrow> data)"
    by (auto simp: parseStatus_def split: option.splits)
  have digits: "ds \<noteq> [] \<and> list_all isDigit ds \<and> digitsVal ds < 2 ^ 53 \<longrightarrow>
        parseStatus ds = (Finite (real (digitsVal ds)), True)"
    by (auto intro: parseStatus_digits)
  have skip: "\<not> snd (parseStatus data) \<longrightarrow>
        globalStatusRow key data s = (Continue, s) \<and> slaveStatusCell col data s = (Continue, s)"
    by (auto simp: globalStatusRow_def slaveStatusCell_def split: prod.splits)
  have emit: "snd (parseStatus data) \<longrightarrow>
        (\<exists>m. globalStatusRow key data (e, ch) = (Continue, (e, ch @ [m]))
             \<and> metricVal m = fst (parseStatus data))
        \<and> (\<exists>m. slaveStatusCell col data (e, ch) = (Continue, (e, ch @ [m]))
             \<and> metricVal m = fst (parseStatus data))"
    using globalStatusRow_ok slaveStatusCell_ok by blast
  from lit other digits parseStatus_examples parseStatus_1e400 skip emit show ?thesis
    by (intro conjI)
qed

theorem parseStatus_rules_and_skip_witness:
  "''garbage'' \<notin> {''Yes'', ''ON'', ''No'', ''OFF''}
   \<and> \<not> snd (parseStatus ''garbage'')
   \<and> globalStatusRow ''Uptime'' ''garbage'' (\<lparr>duration = 0, error = 0, totalScrapes = 1\<rparr>, []) =
        (Continue, (\<lparr>duration = 0, error = 0, totalScrapes = 1\<rparr>, []))
   \<and> slaveStatusCell ''Slave_IO_State'' ''garbage'' (\<lparr>duration = 0, error = 0, totalScrapes = 1\<rparr>, []) =
        (Continue, (\<lparr>duration = 0, error = 0, totalScrapes = 1\<rparr>, []))
   \<and> ''17'' \<noteq> [] \<and> list_all isDigit ''17'' \<and> digitsVal ''17'' < 2 ^ 53
   \<and> parseStatus ''17'' = (Finite 17, True)
   \<and> snd (parseStatus ''17'')
   \<and> (\<exists>m. globalStatusRow ''Uptime'' ''17'' (\<lparr>duration = 0, error = 0, totalScrapes = 1\<rparr>, []) =
            (Continue, (\<lparr>duration = 0, error = 0, totalScrapes = 1\<rparr>, [m]))
           \<and> metricVal m = Finite 17)
   \<and> (\<exists>m. slaveStatusCell ''Seconds_Behind_Master'' ''17''
              (\<lparr>duration = 0, error = 0, totalScrapes = 1\<rparr>, []) =
            (Continue, (\<lparr>duration = 0, error = 0, totalScrapes = 1\<rparr>, [m]))
           \<and> metricVal m = Finite 17)"
proof -
  have h1: "''garbage'' \<notin> {''Yes'', ''ON'', ''No'', ''OFF''}"
    by simp
  note neg = parseStatus_rules_and_skip [of "''garbage''" "''17''" "''Uptime''"
      "(\<lparr>duration = 0, error = 0, totalScrapes = 1\<rparr>, [])" "''Slave_IO_State''"]
  from neg have g: "parseStatus ''garbage'' = (Finite 0, False)"
    by blast
  then have h2: "\<not> snd (parseStatus ''garbage'')"
    by simp
  from neg h2 have skip:
    "globalStatusRow ''Uptime'' ''garbage'' (\<lparr>duration = 0, error = 0, totalScrapes = 1\<rparr>, []) =
        (Continue, (\<lparr>duration = 0, error = 0, totalScrapes = 1\<rparr>, []))"
    "slaveStatusCell ''Slave_IO_State'' ''garbage'' (\<lparr>duration = 0, error = 0, totalScrapes = 1\<rparr>, []) =
        (Continue, (\<lparr>duration = 0, error = 0, totalScrapes = 1\<rparr>, []))"
    by blast+
  have d: "''17'' \<noteq> []" "list_all isDigit ''17''" "digitsVal ''17'' < 2 ^ 53"
    by (simp_all add: num_defs)
  have v: "real (digitsVal ''17'') = 17"
    by (simp add: num_defs)
  from neg d have "parseStatus ''17'' = (Finite (real (digitsVal ''17'')), True)"
    by blast
  with v have p: "parseStatus ''17'' = (Finite 17, True)"
    by simp
  then have ok: "snd (parseStatus ''17'')"
    by simp
  note pos = parseStatus_rules_and_skip [of "''17''" "''17''" "''Uptime''" _
      "''Seconds_Behind_Master''" "\<lparr>duration = 0, error = 0, totalScrapes = 1\<rparr>" "[]"]
  from pos ok p have emit:
    "\<exists>m. globalStatusRow ''Uptime'' ''17'' (\<lparr>duration = 0, error = 0, totalScrapes = 1\<rparr>, []) =
            (Continue, (\<lparr>duration = 0, error = 0, totalScrapes = 1\<rparr>, [m]))
           \<and> metricVal m = Finite 17"
    "\<exists>m. slaveStatusCell ''Seconds_Behind_Master'' ''17''
              (\<lparr>duration = 0, error = 0, totalScrapes = 1\<rparr>, []) =
            (Continue, (\<lparr>duration = 0, error = 0, totalScrapes = 1\<rparr>, [m]))
           \<and> metricVal m = Finite 17"
    by simp_all
  from h1 h2 skip d p ok emit show ?thesis
    by (intro conjI)
qed

section \<open>Table I/O waits\<close>

lemma float64_of_int64_exact:
  assumes "- (2 ^ 53) < sint c" and "sint c < 2 ^ 53"
  shows "float64_of_int64 c = Finite (real_of_int (sint c))"
proof -
  from assms have "nat \<bar>sint c\<bar> < 2 ^ 53"
    by (simp add: nat_less_iff abs_less_iff)
  from roundFloat64_small [OF this, of "sint c < 0"] show ?thesis
    by (simp add: float64_of_int64_def)
qed

lemma tableWaitsRow_six:
  "tableWaitsRow r (e, ch) =
     (Continue, (e, ch @
        map (\<lambda>(c, operation).
               \<lparr>desc = performanceSchemaTableWaitsDesc, valType = CounterValue,
                 metricVal = float64_of_int64 c,
                 labelValues = [objectSchema r, objectName r, operation]\<rparr>)
          [(countRead r, ''read''), (countWrite r, ''write''), (countFetch r, ''fetch''),
           (countInsert r, ''insert''), (countUpdate r, ''update''), (countDelete r, ''delete'')]))"
  by (simp add: tableWaitsRow_def tableWaitsMetric_def MustNewConstMetric_def
      performanceSchemaTableWaitsDesc_def NewDesc_def send_Some andThen_Continue)

lemma tableWaitsLoop_prefix:
  assumes "rest = [] \<or> isl (hd rest)"
  shows "tableWaitsLoop (map Inr rows @ rest) (e, ch) =
     (if rest = [] then Continue else Returned, (e, ch @ concat (map (\<lambda>r.
        map (\<lambda>(c, operation).
               \<lparr>desc = performanceSchemaTableWaitsDesc, valType = CounterValue,
                 metricVal = float64_of_int64 c,
                 labelValues = [objectSchema r, objectName r, operation]\<rparr>)
          [(countRead r, ''read''), (countWrite r, ''write''), (countFetch r, ''fetch''),
           (countInsert r, ''insert''), (countUpdate r, ''update''), (countDelete r, ''delete'')])
        rows)))"
proof (induction rows arbitrary: ch)
  case Nil
  show ?case
  proof (cases rest)
    case Nil
    then show ?thesis by simp
  next
    case (Cons r others)
    with assms obtain err where "r = Inl err"
      by (cases r) auto
    with Cons show ?thesis by simp
  qed
next
  case (Cons r rows)
  show ?case
    by (simp only: list.map append_Cons tableWaitsLoop.simps sum.case tableWaitsRow_six
        andThen_Continue Cons.IH concat.simps append_assoc)
qed

text \<open>
  C8. With the table-waits toggle on, every scanned row of the fixed query gives
  exactly six counters of the one descriptor \<^verbatim>\<open>table_io_waits_total\<close>, with the
  label names schema, name and operation, one for each of read, write, fetch,
  insert, update and delete in this order, each with the count scanned for it,
  converted to \<^verbatim>\<open>float64\<close> (a count below \<open>2\<^sup>5\<^sup>3\<close> in magnitude is its own
  value). The rows are those up to the end of the result set or up to the first
  row that fails to scan; what they gave stays in the channel when the loop
  returns at that row.
\<close>

theorem tableWaits_six_counters_per_row:
  assumes "perfTableIOWaits fl"
    and "selectTableIOWaits db = Inr rs"
    and "scans rs = map Inr rows @ rest"
    and "rest = [] \<or> isl (hd rest)"
  shows "tableWaitsSection fl db (e, ch) =
     (if rest = [] then Continue else Returned, (e, ch @ concat (map (\<lambda>r.
        map (\<lambda>(c, operation).
               \<lparr>desc = \<lparr>fqName = ''mysql_perf_schema_table_io_waits_total'',
                         helpText = ''The total number of table I/O wait events for each table and operation.'',
                         variableLabels = [''schema'', ''name'', ''operation'']\<rparr>,
                 valType = CounterValue,
                 metricVal = float64_of_int64 c,
                 labelValues = [objectSchema r, objectName r, operation]\<rparr>)
          [(countRead r, ''read''), (countWrite r, ''write''), (countFetch r, ''fetch''),
           (countInsert r, ''insert''), (countUpdate r, ''update''), (countDelete r, ''delete'')])
        rows)))
     \<and> (- (2 ^ 53) < sint count \<and> sint count < 2 ^ 53 \<longrightarrow>
          float64_of_int64 count = Finite (real_of_int (sint count)))"
proof -
  have d: "performanceSchemaTableWaitsDesc =
      \<lparr>fqName = ''mysql_perf_schema_table_io_waits_total'',
        helpText = ''The total number of table I/O wait events for each table and operation.'',
        variableLabels = [''schema'', ''name'', ''operation'']\<rparr>"
    by (simp add: desc_defs)
  have "tableWaitsSection fl db (e, ch) = tableWaitsLoop (map Inr rows @ rest) (e, ch)"
    using assms(1-3) by (simp add: tableWaitsSection_def)
  then have "tableWaitsSection fl db (e, ch) =
     (if rest = [] then Continue else Returned, (e, ch @ concat (map (\<lambda>r.
        map (\<lambda>(c, operation).
               \<lparr>desc = \<lparr>fqName = ''mysql_perf_schema_table_io_waits_total'',
                         helpText = ''The total number of table I/O wait events for each table and operation.'',
                         variableLabels = [''schema'', ''name'', ''operation'']\<rparr>,
                 valType = CounterValue,
                 metricVal = float64_of_int64 c,
                 labelValues = [objectSchema r, objectName r, operation]\<rparr>)
          [(countRead r, ''read''), (countWrite r, ''write''), (countFetch r, ''fetch''),
           (countInsert r, ''insert''), (countUpdate r, ''update''), (countDelete r, ''delete'')])
        rows)))"
    by (simp only: tableWaitsLoop_prefix [OF assms(4)] d)
  moreover have "- (2 ^ 53) < sint count \<and> sint count < 2 ^ 53 \<longrightarrow>
          float64_of_int64 count = Finite (real_of_int (sint count))"
    using float64_of_int64_exact [of count] by blast
  ultimately show ?thesis
    by (rule conjI)
qed

theorem tableWaits_six_counters_per_row_witness:
  "(let fl = \<lparr>perfTableIOWaits = True, userStat = False\<rparr>;
        row = \<lparr>objectSchema = ''shop'', objectName = ''orders'', countRead = 11, countWrite = 12,
                countFetch = 13, countInsert = 14, countUpdate = 9007199254740993,
                countDelete = - 16\<rparr>;
        later = \<lparr>objectSchema = ''shop'', objectName = ''items'', countRead = 1, countWrite = 2,
                  countFetch = 3, countInsert = 4, countUpdate = 5, countDelete = 6\<rparr>;
        rest = [Inl ''sql: Scan error on column index 2: value out of range'', Inr later];
        rs = \<lparr>Columns = Inr [''OBJECT_SCHEMA'', ''OBJECT_NAME'', ''COUNT_READ'', ''COUNT_WRITE'',
                              ''COUNT_FETCH'', ''COUNT_INSERT'', ''COUNT_UPDATE'', ''COUNT_DELETE''],
               scans = Inr row # rest\<rparr>;
        db = \<lparr>Open = None,
              showGlobalStatus = Inr \<lparr>Columns = Inr [''Variable_name'', ''Value''], scans = []\<rparr>,
              showSlaveStatus = Inr \<lparr>Columns = Inr [], scans = []\<rparr>,
              selectTableIOWaits = Inr rs,
              selectUserStatistics = Inr \<lparr>Columns = Inr [''USER''], scans = []\<rparr>\<rparr>;
        e = \<lparr>duration = 0, error = 0, totalScrapes = 1\<rparr>
    in perfTableIOWaits fl \<and> selectTableIOWaits db = Inr rs \<and> scans rs = map Inr [row] @ rest
       \<and> (rest = [] \<or> isl (hd rest))
       \<and> - (2 ^ 53) < sint (11 :: int64) \<and> sint (11 :: int64) < 2 ^ 53
       \<and> float64_of_int64 11 = Finite 11
       \<and> map (\<lambda>m. (fqName (desc m), valType m, metricVal m, labelValues m))
            (snd (snd (tableWaitsSection fl db (e, [])))) =
          [(''mysql_perf_schema_table_io_waits_total'', CounterValue, Finite 11, [''shop'', ''orders'', ''read'']),
           (''mysql_perf_schema_table_io_waits_total'', CounterValue, Finite 12, [''shop'', ''orders'', ''write'']),
           (''mysql_perf_schema_table_io_waits_total'', CounterValue, Finite 13, [''shop'', ''orders'', ''fetch'']),
           (''mysql_perf_schema_table_io_waits_total'', CounterValue, Finite 14, [''shop'', ''orders'', ''insert'']),
           (''mysql_perf_schema_table_io_waits_total'', CounterValue, Finite 9007199254740992,
            [''shop'', ''orders'', ''update'']),
           (''mysql_perf_schema_table_io_waits_total'', CounterValue, Finite (- 16), [''shop'', ''orders'', ''delete''])]
       \<and> fst (tableWaitsSection fl db (e, [])) = Returned)"
proof -
  define fl where "fl = \<lparr>perfTableIOWaits = True, userStat = False\<rparr>"
  define row where "row = \<lparr>objectSchema = ''shop'', objectName = ''orders'', countRead = 11,
    countWrite = 12, countFetch = 13, countInsert = 14, countUpdate = 9007199254740993,
    countDelete = (- 16 :: int64)\<rparr>"
  define later where "later = \<lparr>objectSchema = ''shop'', objectName = ''items'', countRead = 1,
    countWrite = 2, countFetch = 3, countInsert = 4, countUpdate = 5, countDelete = (6 :: int64)\<rparr>"
  define rest where "rest = [Inl ''sql: Scan error on column index 2: value out of range'', Inr later]"
  define rs where "rs = \<lparr>Columns = Inr [''OBJECT_SCHEMA'', ''OBJECT_NAME'', ''COUNT_READ'', ''COUNT_WRITE'',
                              ''COUNT_FETCH'', ''COUNT_INSERT'', ''COUNT_UPDATE'', ''COUNT_DELETE''],
               scans = Inr row # rest\<rparr>"
  define db where "db = \<lparr>Open = None,
              showGlobalStatus = Inr \<lparr>Columns = Inr [''Variable_name'', ''Value''], scans = []\<rparr>,
              showSlaveStatus = Inr \<lparr>Columns = Inr [], scans = []\<rparr>,
              selectTableIOWaits = Inr rs,
              selectUserStatistics = Inr \<lparr>Columns = Inr [''USER''], scans = []\<rparr>\<rparr>"
  define e where "e = \<lparr>duration = 0, error = 0, totalScrapes = 1\<rparr>"
  have h1: "perfTableIOWaits fl"
    by (simp add: fl_def)
  have h2: "selectTableIOWaits db = Inr rs"
    by (simp add: db_def)
  have h3: "scans rs = map Inr [row] @ rest"
    by (simp add: rs_def)
  have h4: "rest = [] \<or> isl (hd rest)"
    by (simp add: rest_def)
  have h5: "- (2 ^ 53) < sint (11 :: int64)" "sint (11 :: int64) < 2 ^ 53"
    by simp_all
  note r = tableWaits_six_counters_per_row [OF h1 h2 h3 h4, of e "[]" 11]
  from r h5 have x: "float64_of_int64 11 = Finite 11"
    by simp
  have ne: "rest \<noteq> []"
    by (simp add: rest_def)
  have vals: "float64_of_int64 12 = Finite 12" "float64_of_int64 13 = Finite 13"
    "float64_of_int64 14 = Finite 14" "float64_of_int64 9007199254740993 = Finite 9007199254740992"
    "float64_of_int64 (- 16) = Finite (- 16)"
    by (simp_all add: float64_of_int64_def round_defs)
  from r have sec: "tableWaitsSection fl db (e, []) =
     (if rest = [] then Continue else Returned, (e, [] @ concat (map (\<lambda>r.
        map (\<lambda>(c, operation).
               \<lparr>desc = \<lparr>fqName = ''mysql_perf_schema_table_io_waits_total'',
                         helpText = ''The total number of table I/O wait events for each table and operation.'',
                         variableLabels = [''schema'', ''name'', ''operation'']\<rparr>,
                 valType = CounterValue,
                 metricVal = float64_of_int64 c,
                 labelValues = [objectSchema r, objectName r, operation]\<rparr>)
          [(countRead r, ''read''), (countWrite r, ''write''), (countFetch r, ''fetch''),
           (countInsert r, ''insert''), (countUpdate r, ''update''), (countDelete r, ''delete'')])
        [row])))"
    by (rule conjunct1)
  have obs: "map (\<lambda>m. (fqName (desc m), valType m, metricVal m, labelValues m))
            (snd (snd (tableWaitsSection fl db (e, [])))) =
          [(''mysql_perf_schema_table_io_waits_total'', CounterValue, Finite 11, [''shop'', ''orders'', ''read'']),
           (''mysql_perf_schema_table_io_waits_total'', CounterValue, Finite 12, [''shop'', ''orders'', ''write'']),
           (''mysql_perf_schema_table_io_waits_total'', CounterValue, Finite 13, [''shop'', ''orders'', ''fetch'']),
           (''mysql_perf_schema_table_io_waits_total'', CounterValue, Finite 14, [''shop'', ''orders'', ''insert'']),
           (''mysql_perf_schema_table_io_waits_total'', CounterValue, Finite 9007199254740992,
            [''shop'', ''orders'', ''update'']),
           (''mysql_perf_schema_table_io_waits_total'', CounterValue, Finite (- 16), [''shop'', ''orders'', ''delete''])]"
    unfolding sec by (simp add: row_def x vals)
  have fl': "fst (tableWaitsSection fl db (e, [])) = Returned"
    unfolding sec using ne by simp
  from h1 h2 h3 h4 h5 x obs fl' show ?thesis
    unfolding Let_def fl_def row_def later_def rest_def rs_def db_def e_def by simp
qed

section \<open>Slave status\<close>

lemma slaveStatusCell_result:
  "slaveStatusCell col data (e, ch) =
     (Continue, (e, ch @ (if snd (parseStatus data)
        then [\<lparr>desc = \<lparr>fqName = BuildFQName ''mysql'' ''slave_status'' (ToLower col),
                        helpText = ''Generic metric from SHOW SLAVE STATUS.'',
                        variableLabels = []\<rparr>,
                valType = UntypedValue, metricVal = fst (parseStatus data), labelValues = []\<rparr>]
        else [])))"
  by (simp add: slaveStatusCell_def MustNewConstMetric_def newDesc_def NewDesc_def send_Some
      namespace_def slaveStatus_def split: prod.splits)

lemma slaveStatusLoop_result:
  "i + length cols \<le> length scanArgs \<Longrightarrow>
   slaveStatusLoop cols i scanArgs (e, ch) =
     (Continue, (e, ch @
        [\<lparr>desc = \<lparr>fqName = BuildFQName ''mysql'' ''slave_status'' (ToLower col),
                    helpText = ''Generic metric from SHOW SLAVE STATUS.'',
                    variableLabels = []\<rparr>,
           valType = UntypedValue, metricVal = fst (parseStatus cell), labelValues = []\<rparr>.
         (col, cell) \<leftarrow> zip cols (drop i scanArgs), snd (parseStatus cell)]))"
proof (induction cols arbitrary: i ch)
  case Nil
  show ?case by simp
next
  case (Cons col cols)
  from Cons.prems have i: "i < length scanArgs" and rest: "Suc i + length cols \<le> length scanArgs"
    by simp_all
  from i have d: "drop i scanArgs = scanArgs ! i # drop (Suc i) scanArgs"
    by (simp add: Cons_nth_drop_Suc)
  from i have l: "load scanArgs i = Some (scanArgs ! i)"
    by (simp add: load_def)
  show ?case
    by (simp add: l d slaveStatusCell_result andThen_Continue Cons.IH [OF rest])
qed

text \<open>
  C9. When the slave-status query returns no row, the section sends nothing,
  leaves the error gauge as it is and the poll goes on with the remaining
  states. When it returns a row, every column whose cell parses is sent as an
  untyped metric without labels, named by the lower-cased column name of the
  result metadata, in column order; the other cells are left out.
\<close>

theorem slaveStatus_rows:
  assumes "showSlaveStatus db = Inr rs"
  shows "(scans rs = [] \<longrightarrow>
            slaveStatusSection db s = (Continue, s)
            \<and> (Open db = None \<longrightarrow>
                 globalStatusSection db
                   ((fst s0)\<lparr>error := 0, totalScrapes := totalScrapes (fst s0) + 1\<rparr>, snd s0) = (Continue, s) \<longrightarrow>
                 scrapeBody fl db s0 = andThen (tableWaitsSection fl db s) (userStatSection fl db)))
       \<and> (scans rs = Inr cells # others \<longrightarrow> Columns rs = Inr slaveCols \<longrightarrow>
            length cells = length slaveCols \<longrightarrow>
            slaveStatusSection db (e, ch) =
              (Continue, (e, ch @
                 [\<lparr>desc = \<lparr>fqName = BuildFQName ''mysql'' ''slave_status'' (ToLower col),
                             helpText = ''Generic metric from SHOW SLAVE STATUS.'',
                             variableLabels = []\<rparr>,
                    valType = UntypedValue, metricVal = fst (parseStatus cell), labelValues = []\<rparr>.
                  (col, cell) \<leftarrow> zip slaveCols cells, snd (parseStatus cell)])))"
proof (intro conjI impI)
  assume "scans rs = []"
  with assms show none: "slaveStatusSection db s = (Continue, s)"
    by (simp add: slaveStatusSection_def)
  assume "Open db = None"
    and "globalStatusSection db
           ((fst s0)\<lparr>error := 0, totalScrapes := totalScrapes (fst s0) + 1\<rparr>, snd s0) = (Continue, s)"
  with none show "scrapeBody fl db s0 = andThen (tableWaitsSection fl db s) (userStatSection fl db)"
    by (simp add: scrapeBody_def andThen_Continue)
next
  assume "scans rs = Inr cells # others" and "Columns rs = Inr slaveCols"
    and len: "length cells = length slaveCols"
  with assms have "slaveStatusSection db (e, ch) = slaveStatusLoop slaveCols 0 cells (e, ch)"
    by (simp add: slaveStatusSection_def ScanRawBytes_def)
  also from len have "0 + length slaveCols \<le> length cells"
    by simp
  note slaveStatusLoop_result [OF this]
  finally show "slaveStatusSection db (e, ch) =
              (Continue, (e, ch @
                 [\<lparr>desc = \<lparr>fqName = BuildFQName ''mysql'' ''slave_status'' (ToLower col),
                             helpText = ''Generic metric from SHOW SLAVE STATUS.'',
                             variableLabels = []\<rparr>,
                    valType = UntypedValue, metricVal = fst (parseStatus cell), labelValues = []\<rparr>.
                  (col, cell) \<leftarrow> zip slaveCols cells, snd (parseStatus cell)]))"
    by simp
qed

theorem slaveStatus_rows_witness:
  "(let none = \<lparr>Columns = Inr [''Slave_IO_State''], scans = []\<rparr>;
        one = \<lparr>Columns = Inr [''Master_Log_File'', ''Slave_IO_Running'', ''Seconds_Behind_Master''],
                scans = [Inr [''mysql-bin.000123'', ''Yes'', ''17'']]\<rparr>;
        db = \<lparr>Open = None,
              showGlobalStatus = Inr \<lparr>Columns = Inr [''Variable_name'', ''Value''], scans = []\<rparr>,
              showSlaveStatus = Inr none,
              selectTableIOWaits = Inr \<lparr>Columns = Inr [], scans = []\<rparr>,
              selectUserStatistics = Inr \<lparr>Columns = Inr [''USER''], scans = []\<rparr>\<rparr>;
        fl = \<lparr>perfTableIOWaits = False, userStat = False\<rparr>;
        e0 = \<lparr>duration = 0, error = 1, totalScrapes = 0\<rparr>;
        e = \<lparr>duration = 0, error = 0, totalScrapes = 1\<rparr>
    in showSlaveStatus db = Inr none \<and> scans none = [] \<and> Open db = None
       \<and> globalStatusSection db (e, []) = (Continue, (e, []))
       \<and> slaveStatusSection db (e, []) = (Continue, (e, []))
       \<and> scrapeBody fl db (e0, []) = (Continue, (e, []))
       \<and> showSlaveStatus (db\<lparr>showSlaveStatus := Inr one\<rparr>) = Inr one
       \<and> scans one = [Inr [''mysql-bin.000123'', ''Yes'', ''17'']]
       \<and> slaveStatusSection (db\<lparr>showSlaveStatus := Inr one\<rparr>) (e, []) =
           (Continue, (e,
             [\<lparr>desc = \<lparr>fqName = ''mysql_slave_status_slave_io_running'',
                         helpText = ''Generic metric from SHOW SLAVE STATUS.'',
                         variableLabels = []\<rparr>,
                valType = UntypedValue, metricVal = Finite 1, labelValues = []\<rparr>,
              \<lparr>desc = \<lparr>fqName = ''mysql_slave_status_seconds_behind_master'',
                         helpText = ''Generic metric from SHOW SLAVE STATUS.'',
                         variableLabels = []\<rparr>,
                valType = UntypedValue, metricVal = Finite 17, labelValues = []\<rparr>])))"
proof -
  define none :: "(RawBytes list) Rows" where "none = \<lparr>Columns = Inr [''Slave_IO_State''], scans = []\<rparr>"
  define one :: "(RawBytes list) Rows" where
    "one = \<lparr>Columns = Inr [''Master_Log_File'', ''Slave_IO_Running'', ''Seconds_Behind_Master''],
                scans = [Inr [''mysql-bin.000123'', ''Yes'', ''17'']]\<rparr>"
  define db where "db = \<lparr>Open = None,
              showGlobalStatus = Inr \<lparr>Columns = Inr [''Variable_name'', ''Value''], scans = []\<rparr>,
              showSlaveStatus = Inr none,
              selectTableIOWaits = Inr \<lparr>Columns = Inr [], scans = []\<rparr>,
              selectUserStatistics = Inr \<lparr>Columns = Inr [''USER''], scans = []\<rparr>\<rparr>"
  define fl where "fl = \<lparr>perfTableIOWaits = False, userStat = False\<rparr>"
  define e0 where "e0 = \<lparr>duration = 0, error = 1, totalScrapes = 0\<rparr>"
  define e where "e = \<lparr>duration = 0, error = 0, totalScrapes = 1\<rparr>"
  have a1: "showSlaveStatus db = Inr none"
    by (simp add: db_def)
  have a2: "scans none = []"
    by (simp add: none_def)
  have a3: "Open db = None"
    by (simp add: db_def)
  have a4: "globalStatusSection db
              ((fst (e0, []))\<lparr>error := 0, totalScrapes := totalScrapes (fst (e0, [])) + 1\<rparr>,
               snd (e0, [])) = (Continue, (e, []))"
    by (simp add: db_def e0_def e_def globalStatusSection_def)
  have a5: "globalStatusSection db (e, []) = (Continue, (e, []))"
    by (simp add: db_def globalStatusSection_def)
  from slaveStatus_rows [OF a1, of "(e, [])" "(e0, [])" fl] a2 a3 a4
  have b1: "slaveStatusSection db (e, []) = (Continue, (e, []))"
    and b2: "scrapeBody fl db (e0, []) = andThen (tableWaitsSection fl db (e, [])) (userStatSection fl db)"
    by blast+
  from b2 have b3: "scrapeBody fl db (e0, []) = (Continue, (e, []))"
    by (simp add: fl_def tableWaitsSection_def userStatSection_def andThen_Continue)
  have c1: "showSlaveStatus (db\<lparr>showSlaveStatus := Inr one\<rparr>) = Inr one"
    by simp
  have c2: "scans one = Inr [''mysql-bin.000123'', ''Yes'', ''17''] # []"
    by (simp add: one_def)
  have c3: "Columns one = Inr [''Master_Log_File'', ''Slave_IO_Running'', ''Seconds_Behind_Master'']"
    by (simp add: one_def)
  have c4: "length [''mysql-bin.000123'', ''Yes'', ''17''] =
            length [''Master_Log_File'', ''Slave_IO_Running'', ''Seconds_Behind_Master'']"
    by simp
  from slaveStatus_rows [OF c1, of _ _ _ "[''mysql-bin.000123'', ''Yes'', ''17'']" "[]"
      "[''Master_Log_File'', ''Slave_IO_Running'', ''Seconds_Behind_Master'']" e "[]"] c2 c3 c4
  have "slaveStatusSection (db\<lparr>showSlaveStatus := Inr one\<rparr>) (e, []) =
           (Continue, (e, [] @
             [\<lparr>desc = \<lparr>fqName = BuildFQName ''mysql'' ''slave_status'' (ToLower col),
                         helpText = ''Generic metric from SHOW SLAVE STATUS.'',
                         variableLabels = []\<rparr>,
                valType = UntypedValue, metricVal = fst (parseStatus cell), labelValues = []\<rparr>.
              (col, cell) \<leftarrow> zip [''Master_Log_File'', ''Slave_IO_Running'', ''Seconds_Behind_Master'']
                                  [''mysql-bin.000123'', ''Yes'', ''17''],
              snd (parseStatus cell)]))"
    by blast
  also have "[] @ [\<lparr>desc = \<lparr>fqName = BuildFQName ''mysql'' ''slave_status'' (ToLower col),
                         helpText = ''Generic metric from SHOW SLAVE STATUS.'',
                         variableLabels = []\<rparr>,
                valType = UntypedValue, metricVal = fst (parseStatus cell), labelValues = []\<rparr>.
              (col, cell) \<leftarrow> zip [''Master_Log_File'', ''Slave_IO_Running'', ''Seconds_Behind_Master'']
                                  [''mysql-bin.000123'', ''Yes'', ''17''],
              snd (parseStatus cell)] =
             [\<lparr>desc = \<lparr>fqName = ''mysql_slave_status_slave_io_running'',
                         helpText = ''Generic metric from SHOW SLAVE STATUS.'',
                         variableLabels = []\<rparr>,
                valType = UntypedValue, metricVal = Finite 1, labelValues = []\<rparr>,
              \<lparr>desc = \<lparr>fqName = ''mysql_slave_status_seconds_behind_master'',
                         helpText = ''Generic metric from SHOW SLAVE STATUS.'',
                         variableLabels = []\<rparr>,
                valType = UntypedValue, metricVal = Finite 17, labelValues = []\<rparr>]"
    by (simp add: parse_defs BuildFQName_def lower_defs)
  finally have c5: "slaveStatusSection (db\<lparr>showSlaveStatus := Inr one\<rparr>) (e, []) =
           (Continue, (e,
             [\<lparr>desc = \<lparr>fqName = ''mysql_slave_status_slave_io_running'',
                         helpText = ''Generic metric from SHOW SLAVE STATUS.'',
                         variableLabels = []\<rparr>,
                valType = UntypedValue, metricVal = Finite 1, labelValues = []\<rparr>,
              \<lparr>desc = \<lparr>fqName = ''mysql_slave_status_seconds_behind_master'',
                         helpText = ''Generic metric from SHOW SLAVE STATUS.'',
                         variableLabels = []\<rparr>,
                valType = UntypedValue, metricVal = Finite 17, labelValues = []\<rparr>]))" .
  from a1 a2 a3 a5 b1 b3 c1 c2 c5 show ?thesis
    unfolding Let_def none_def one_def db_def fl_def e0_def e_def by simp
qed

section \<open>Column 0 of the user statistics\<close>

lemma userStatTypes_one_label:
  "informationSchemaUserStatisticsTypes columnName = Some (vtype, d) \<Longrightarrow>
   variableLabels d = [''user'']"
  unfolding informationSchemaUserStatisticsTypes_def
  by (drule map_of_SomeD) (auto simp: userStatDesc_def NewDesc_def)

lemma userStatMetric_Some: "\<exists>m. userStatMetric columnName v user = Some m"
  by (cases "informationSchemaUserStatisticsTypes columnName")
     (auto simp: userStatMetric_def MustNewConstMetric_def NewDesc_def
           dest: userStatTypes_one_label)

lemma userStatColumns_in_range:
  "idx + length cols \<le> length userStatData \<Longrightarrow>
   \<exists>s'. userStatColumns cols idx user userStatData s = (Continue, s')"
proof (induction cols arbitrary: idx s)
  case Nil
  show ?case by simp
next
  case (Cons columnName cols)
  from Cons.prems have l: "load userStatData idx = Some (userStatData ! idx)"
    and rest: "Suc idx + length cols \<le> length userStatData"
    by (simp_all add: load_def)
  obtain m where m: "userStatMetric columnName (userStatData ! idx) user = Some m"
    using userStatMetric_Some by blast
  obtain e ch where s: "s = (e, ch)" by (cases s)
  show ?case
    using Cons.IH [OF rest] by (simp add: l m s send_Some andThen_Continue)
qed

lemma assignData_length:
  "assignData args vs d = Some d' \<Longrightarrow> length d' = length d"
  by (induction args vs d rule: assignData.induct)
     (auto simp: store_def split: option.splits if_splits)

lemma ScanUserStat_length:
  "ScanUserStat args r (u, d) = Inr (u', d') \<Longrightarrow> length d' = length d"
  by (auto simp: ScanUserStat_def split: sum.splits prod.splits list.splits scanArg.splits
      option.splits dest: assignData_length)

lemma userStatLoop_no_panic:
  "columnNames \<noteq> [] \<Longrightarrow> length (snd vars) = length columnNames \<Longrightarrow>
   fst (userStatLoop rows columnNames args vars s) \<noteq> Panicked"
proof (induction rows arbitrary: vars s)
  case Nil
  show ?case by simp
next
  case (Cons r rows)
  obtain u d where vars: "vars = (u, d)" by (cases vars)
  show ?case
  proof (cases "ScanUserStat args r (u, d)")
    case (Inl err)
    then show ?thesis by (simp add: vars fail_def)
  next
    case (Inr res)
    obtain user userStatData where res: "res = (user, userStatData)" by (cases res)
    from Inr res have "length userStatData = length d"
      by (auto dest: ScanUserStat_length)
    with Cons.prems vars have len: "length userStatData = length columnNames"
      by simp
    from Cons.prems(1) have sl: "sliceFrom columnNames (Suc 0) = Some (tl columnNames)"
      by (cases columnNames) (simp_all add: sliceFrom_def)
    from Cons.prems(1) len have "0 + length (tl columnNames) \<le> length userStatData"
      by simp
    from userStatColumns_in_range [OF this]
    obtain s' where cols: "userStatColumns (tl columnNames) 0 user userStatData s = (Continue, s')"
      by blast
    from len have "length (snd (user, userStatData)) = length columnNames"
      by simp
    from Cons.IH [OF Cons.prems(1) this]
    show ?thesis by (simp add: vars Inr res sl cols andThen_Continue)
  qed
qed

lemma bindScanArgs_Some:
  "\<forall>i \<in> set is. i + 1 < length userStatData \<and> i + 1 < length args \<Longrightarrow>
   \<exists>args'. bindScanArgs is userStatData args = Some args'"
proof (induction "is" arbitrary: args)
  case Nil
  show ?case by simp
next
  case (Cons i "is")
  from Cons.prems have "\<forall>j \<in> set is. j + 1 < length userStatData \<and> j + 1 < length (args[i + 1 := DataPtr (i + 1)])"
    by simp
  from Cons.IH [OF this] Cons.prems show ?case
    by (simp add: store_def)
qed

text \<open>
  C10. The user-statistics path stores the pointer to the user name at index 0
  of the scan arguments before any row is scanned. With no column in the result
  set the store is out of range: the section panics with the state untouched,
  so the error gauge is not set and \<^verbatim>\<open>Collect\<close> does not send the metrics of
  the exporter. With at least one column no index of the section is out of
  range.
\<close>

theorem userStat_column_zero:
  assumes "userStat fl"
    and "selectUserStatistics db = Inr rs"
    and "Columns rs = Inr columnNames"
  shows "(columnNames = [] \<longrightarrow>
            userStatSection fl db s = (Panicked, s)
            \<and> (Open db = None \<longrightarrow>
                 globalStatusSection db (e\<lparr>error := 0, totalScrapes := totalScrapes e + 1\<rparr>, ch) = (Continue, s1) \<longrightarrow>
                 slaveStatusSection db s1 = (Continue, s2) \<longrightarrow>
                 tableWaitsSection fl db s2 = (Continue, (e3, ch3)) \<longrightarrow>
                 Collect fl db clk (e, ch) =
                   (Panicked, (e3\<lparr>duration := Seconds (ended clk - begun clk)\<rparr>, ch3))))
       \<and> (columnNames \<noteq> [] \<longrightarrow> fst (userStatSection fl db s) \<noteq> Panicked)"
proof (intro conjI impI)
  assume "columnNames = []"
  with assms show p: "userStatSection fl db s = (Panicked, s)" for s
    by (simp add: userStatSection_def store_def)
  assume "Open db = None"
    and "globalStatusSection db (e\<lparr>error := 0, totalScrapes := totalScrapes e + 1\<rparr>, ch) = (Continue, s1)"
    and "slaveStatusSection db s1 = (Continue, s2)"
    and "tableWaitsSection fl db s2 = (Continue, (e3, ch3))"
  with p have "scrapeBody fl db (e, ch) = (Panicked, (e3, ch3))"
    by (simp add: scrapeBody_def andThen_Continue)
  then show "Collect fl db clk (e, ch) =
                   (Panicked, (e3\<lparr>duration := Seconds (ended clk - begun clk)\<rparr>, ch3))"
    by (simp add: Collect_def scrape_def)
next
  assume ne: "columnNames \<noteq> []"
  define n where "n = length columnNames"
  from ne have n: "0 < n" by (simp add: n_def)
  have st: "store (replicate n NilArg) 0 UserPtr = Some ((replicate n NilArg)[0 := UserPtr])"
    using n by (simp add: store_def)
  have sl: "sliceFrom (replicate n (Finite 0)) (Suc 0) = Some (replicate (n - 1) (Finite 0))"
    using n by (simp add: sliceFrom_def)
  have "\<forall>i \<in> set [0..<n - 1]. i + 1 < length (replicate n (Finite 0))
          \<and> i + 1 < length ((replicate n NilArg)[0 := UserPtr])"
    by auto
  from bindScanArgs_Some [OF this]
  obtain args where b: "bindScanArgs [0..<n - 1] (replicate n (Finite 0)) ((replicate n NilArg)[0 := UserPtr]) = Some args"
    by blast
  have "length (snd ([] :: string, replicate n (Finite 0))) = length columnNames"
    by (simp add: n_def)
  from userStatLoop_no_panic [OF ne this]
  have "fst (userStatLoop (scans rs) columnNames args ([], replicate n (Finite 0)) s) \<noteq> Panicked" .
  with assms st sl b show "fst (userStatSection fl db s) \<noteq> Panicked"
    by (simp add: userStatSection_def n_def [symmetric])
qed

theorem userStat_column_zero_witness:
  "(let fl = \<lparr>perfTableIOWaits = False, userStat = True\<rparr>;
        zero = \<lparr>Columns = Inr [], scans = [Inr ([], [])]\<rparr>;
        three = \<lparr>Columns = Inr [''USER'', ''TOTAL_CONNECTIONS'', ''UNKNOWN_COL''],
                  scans = [Inr (''alice'', [Finite 5, Finite 9])]\<rparr>;
        db = \<lparr>Open = None,
              showGlobalStatus = Inr \<lparr>Columns = Inr [''Variable_name'', ''Value''], scans = []\<rparr>,
              showSlaveStatus = Inr \<lparr>Columns = Inr [], scans = []\<rparr>,
              selectTableIOWaits = Inr \<lparr>Columns = Inr [], scans = []\<rparr>,
              selectUserStatistics = Inr zero\<rparr>;
        clk = \<lparr>begun = 0, ended = 3000000000\<rparr>;
        e0 = \<lparr>duration = 0, error = 0, totalScrapes = 0\<rparr>;
        e = \<lparr>duration = 0, error = 0, totalScrapes = 1\<rparr>
    in userStat fl \<and> selectUserStatistics db = Inr zero \<and> Columns zero = Inr []
       \<and> userStatSection fl db (e, []) = (Panicked, (e, []))
       \<and> Open db = None
       \<and> globalStatusSection db (e, []) = (Continue, (e, []))
       \<and> slaveStatusSection db (e, []) = (Continue, (e, []))
       \<and> tableWaitsSection fl db (e, []) = (Continue, (e, []))
       \<and> Collect fl db clk (e0, []) = (Panicked, (\<lparr>duration = 3, error = 0, totalScrapes = 1\<rparr>, []))
       \<and> selectUserStatistics (db\<lparr>selectUserStatistics := Inr three\<rparr>) = Inr three
       \<and> Columns three = Inr [''USER'', ''TOTAL_CONNECTIONS'', ''UNKNOWN_COL'']
       \<and> [''USER'', ''TOTAL_CONNECTIONS'', ''UNKNOWN_COL''] \<noteq> []
       \<and> fst (userStatSection fl (db\<lparr>selectUserStatistics := Inr three\<rparr>) (e, [])) \<noteq> Panicked)"
proof -
  define fl where "fl = \<lparr>perfTableIOWaits = False, userStat = True\<rparr>"
  define zero :: "(string \<times> float64 list) Rows" where "zero = \<lparr>Columns = Inr [], scans = [Inr ([], [])]\<rparr>"
  define three :: "(string \<times> float64 list) Rows" where
    "three = \<lparr>Columns = Inr [''USER'', ''TOTAL_CONNECTIONS'', ''UNKNOWN_COL''],
                  scans = [Inr (''alice'', [Finite 5, Finite 9])]\<rparr>"
  define db where "db = \<lparr>Open = None,
              showGlobalStatus = Inr \<lparr>Columns = Inr [''Variable_name'', ''Value''], scans = []\<rparr>,
              showSlaveStatus = Inr \<lparr>Columns = Inr [], scans = []\<rparr>,
              selectTableIOWaits = Inr \<lparr>Columns = Inr [], scans = []\<rparr>,
              selectUserStatistics = Inr zero\<rparr>"
  define clk where "clk = \<lparr>begun = 0, ended = 3000000000\<rparr>"
  define e0 where "e0 = \<lparr>duration = 0, error = 0, totalScrapes = 0\<rparr>"
  define e where "e = \<lparr>duration = 0, error = 0, totalScrapes = 1\<rparr>"
  have a1: "userStat fl"
    by (simp add: fl_def)
  have a2: "selectUserStatistics db = Inr zero"
    by (simp add: db_def)
  have a3: "Columns zero = Inr []"
    by (simp add: zero_def)
  have a4: "Open db = None"
    by (simp add: db_def)
  have a5: "globalStatusSection db (e0\<lparr>error := 0, totalScrapes := totalScrapes e0 + 1\<rparr>, []) =
              (Continue, (e, []))"
    by (simp add: db_def e0_def e_def globalStatusSection_def)
  have a5': "globalStatusSection db (e, []) = (Continue, (e, []))"
    by (simp add: db_def globalStatusSection_def)
  have a6: "slaveStatusSection db (e, []) = (Continue, (e, []))"
    by (simp add: db_def slaveStatusSection_def)
  have a7: "tableWaitsSection fl db (e, []) = (Continue, (e, []))"
    by (simp add: fl_def tableWaitsSection_def)
  from userStat_column_zero [OF a1 a2 a3, of "(e, [])" e0 "[]" "(e, [])" "(e, [])" e "[]" clk]
    a4 a5 a6 a7
  have b1: "userStatSection fl db (e, []) = (Panicked, (e, []))"
    and b2: "Collect fl db clk (e0, []) =
               (Panicked, (e\<lparr>duration := Seconds (ended clk - begun clk)\<rparr>, []))"
    by blast+
  from b2 have b3: "Collect fl db clk (e0, []) =
      (Panicked, (\<lparr>duration = 3, error = 0, totalScrapes = 1\<rparr>, []))"
    by (simp add: e_def clk_def Seconds_def)
  have c1: "selectUserStatistics (db\<lparr>selectUserStatistics := Inr three\<rparr>) = Inr three"
    by simp
  have c2: "Columns three = Inr [''USER'', ''TOTAL_CONNECTIONS'', ''UNKNOWN_COL'']"
    by (simp add: three_def)
  have c3: "[''USER'', ''TOTAL_CONNECTIONS'', ''UNKNOWN_COL''] \<noteq> []"
    by simp
  from userStat_column_zero [OF a1 c1 c2, of "(e, [])"] c3
  have c4: "fst (userStatSection fl (db\<lparr>selectUserStatistics := Inr three\<rparr>) (e, [])) \<noteq> Panicked"
    by blast
  from a1 a2 a3 b1 a4 a5' a6 a7 b3 c1 c2 c3 c4 show ?thesis
    unfolding Let_def fl_def zero_def three_def db_def clk_def e0_def e_def by simp
qed

end
